theory Spec2Isabelle
  imports Complex_Main "HOL-Library.Multiset" "HOL-Library.Product_Lexorder"
begin

section \<open>DuoVerse: the request handlers of app.py over an explicit database state\<close>

text \<open>
  The application is one Flask module. Every route handler reads the rows of five tables
  through the ORM, changes some of them and answers with JSON or a rendered page. The model
  keeps each table as the list of its rows in insertion order, passes the database through
  every handler and returns it updated with the response. What the handlers take from
  outside the module (the clocks, \<open>uuid.uuid4\<close>, \<open>datetime.strptime\<close>, the QR
  drawing library, the file system) is read from an environment record, one per request.
\<close>

subsection \<open>Values\<close>

text \<open>
  A naive \<open>datetime\<close>: year, month, day, hour, minute, second, microsecond. Python
  compares two of them field by field in this order, which is the lexicographic order on
  the tuple.
\<close>

type_synonym datetime = "nat \<times> nat \<times> nat \<times> nat \<times> nat \<times> nat \<times> nat"

text \<open>
  The JSON values handed to \<open>jsonify\<close>. \<open>JTime t\<close> is the text \<open>t.isoformat()\<close>.
\<close>

datatype json =
    JNull
  | JBool bool
  | JInt int
  | JReal real
  | JStr string
  | JTime datetime
  | JList "json list"
  | JObj "(string \<times> json) list"

text \<open>
  A response is a JSON body or a rendered template, with the HTTP status. An exception that
  leaves a handler is answered by the framework with status 500.
\<close>

datatype response =
    Json nat json
  | Page nat string

definition server_error :: response where
  "server_error = Page 500 ''offline.html''"

definition not_found_page :: response where
  "not_found_page = Page 404 ''offline.html''"

definition error_json :: "string \<Rightarrow> json" where
  "error_json msg = JObj [(''error'', JStr msg)]"

definition success_json :: json where
  "success_json = JObj [(''success'', JBool True)]"

definition HARDCODED_PASSWORD :: string where
  "HARDCODED_PASSWORD = ''16092008''"

subsection \<open>Database models\<close>

record Meeting =
  m_id :: int
  m_room_id :: string
  m_title :: string
  m_description :: string
  m_date :: string
  m_time :: string
  m_gallery_password :: string
  m_is_active :: bool
  m_qr_code_path :: "string option"
  m_created_at :: datetime

record Message =
  msg_id :: int
  msg_meeting_id :: int
  msg_sender :: string
  msg_message :: string
  msg_is_image :: bool
  msg_timestamp :: datetime

record JoinRequest =
  jr_id :: int
  jr_meeting_id :: int
  jr_requester :: string
  jr_status :: string
  jr_timestamp :: datetime
  jr_updated_at :: datetime

record GalleryImage =
  gi_id :: int
  gi_meeting_id :: int
  gi_image_path :: string
  gi_created_at :: datetime

text \<open>
  An entry of the playlist: the keys \<open>id\<close>, \<open>title\<close> and \<open>added_at\<close> of the stored
  dictionary. The column holds the \<open>json.dumps\<close> text of the list and every reader
  applies \<open>json.loads\<close> to it; the model keeps the list itself.
\<close>

type_synonym playlist_entry = "string option \<times> string \<times> string"

record YouTubeSession =
  yt_id :: int
  yt_meeting_id :: int
  yt_video_id :: "string option"
  yt_video_title :: "string option"
  yt_is_playing :: "bool option"
  yt_current_time :: real
  yt_volume :: int
  yt_playlist :: "playlist_entry list"
  yt_updated_at :: datetime

record db =
  meetings :: "Meeting list"
  messages :: "Message list"
  join_requests :: "JoinRequest list"
  gallery_images :: "GalleryImage list"
  youtube_sessions :: "YouTubeSession list"

definition empty_db :: db where
  "empty_db = \<lparr>meetings = [], messages = [], join_requests = [],
     gallery_images = [], youtube_sessions = []\<rparr>"

text \<open>
  The integer primary key of a new row, as the SQLite store of the development
  configuration assigns it: the tables are created without AUTOINCREMENT, so the first row
  of an empty table gets 1 and any other row one more than the largest key present.
\<close>

definition new_id :: "int list \<Rightarrow> int" where
  "new_id ids = (case ids of [] \<Rightarrow> 1 | _ \<Rightarrow> Max (set ids) + 1)"

text \<open>\<open>UPDATE ... WHERE\<close>: the rows that satisfy the condition are rewritten in place.\<close>

definition update_where :: "('a \<Rightarrow> bool) \<Rightarrow> ('a \<Rightarrow> 'a) \<Rightarrow> 'a list \<Rightarrow> 'a list" where
  "update_where P f rows = map (\<lambda>r. if P r then f r else r) rows"

text \<open>\<open>DELETE ... WHERE\<close>: the rows that satisfy the condition are removed.\<close>

definition delete_where :: "('a \<Rightarrow> bool) \<Rightarrow> 'a list \<Rightarrow> 'a list" where
  "delete_where P rows = filter (\<lambda>r. \<not> P r) rows"

text \<open>\<open>Meeting.query.filter_by(room_id=room_id).first()\<close>\<close>

definition meeting_by_room :: "string \<Rightarrow> db \<Rightarrow> Meeting option" where
  "meeting_by_room room_id d = find (\<lambda>m. m_room_id m = room_id) (meetings d)"

text \<open>\<open>YouTubeSession.query.filter_by(meeting_id=meeting.id).first()\<close>\<close>

definition session_of :: "int \<Rightarrow> db \<Rightarrow> YouTubeSession option" where
  "session_of mid d = find (\<lambda>s. yt_meeting_id s = mid) (youtube_sessions d)"

subsection \<open>The environment of one request\<close>

text \<open>
  \<open>now\<close> is \<open>datetime.now()\<close> and \<open>utcnow\<close> is \<open>datetime.utcnow()\<close>;
  \<open>uuid4\<close> is \<open>str(uuid.uuid4())\<close>; \<open>strptime s f\<close> is \<open>datetime.strptime(s, f)\<close>,
  \<open>None\<close> where it raises; \<open>base_url\<close> is what \<open>get_base_url()\<close> returns;
  \<open>now_stamp\<close> is \<open>datetime.now().strftime('%Y%m%d_%H%M%S')\<close> and \<open>now_iso\<close> is
  \<open>datetime.now().isoformat()\<close>. \<open>styled_qr\<close> and \<open>simple_qr\<close> are the outcomes of
  drawing and saving the two QR images: \<open>Inl e\<close> when an exception with text \<open>e\<close>
  is raised inside the \<open>try\<close> block, \<open>Inr b\<close> with the base64 text of the image
  otherwise. \<open>qr_file p\<close> is the base64 text of the file \<open>static/p\<close>, \<open>None\<close> when it
  does not exist or cannot be read. \<open>secure_name f\<close> is
  \<open>secure_filename(f"{uuid.uuid4()}_{f}")\<close>.
\<close>

record env =
  now :: datetime
  utcnow :: datetime
  uuid4 :: string
  strptime :: "string \<Rightarrow> string \<Rightarrow> datetime option"
  base_url :: string
  now_stamp :: string
  now_iso :: string
  styled_qr :: "string + string"
  simple_qr :: "string + string"
  qr_file :: "string \<Rightarrow> string option"
  secure_name :: "string \<Rightarrow> string"

text \<open>\<open>url_for('static', filename=p)\<close> for the default static folder.\<close>

definition url_for_static :: "string \<Rightarrow> string" where
  "url_for_static p = ''/static/'' @ p"

subsection \<open>Meeting management\<close>

definition end_meeting :: "string \<Rightarrow> db \<Rightarrow> response \<times> db" where
  "end_meeting room_id d =
     (case meeting_by_room room_id d of
        Some meeting \<Rightarrow>
          (Json 200 success_json,
           d\<lparr>meetings := update_where (\<lambda>m. m_id m = m_id meeting)
                             (\<lambda>m. m\<lparr>m_is_active := False\<rparr>) (meetings d)\<rparr>)
      | None \<Rightarrow> (Json 200 success_json, d))"

definition check_meeting_active :: "string \<Rightarrow> db \<Rightarrow> response" where
  "check_meeting_active room_id d =
     (case meeting_by_room room_id d of
        None \<Rightarrow> Json 404 (error_json ''Meeting not found'')
      | Some meeting \<Rightarrow> Json 200 (JObj [(''is_active'', JBool (m_is_active meeting))]))"

definition is_meeting_started :: "env \<Rightarrow> Meeting \<Rightarrow> bool" where
  "is_meeting_started e meeting =
     (case strptime e (m_date meeting @ '' '' @ m_time meeting) ''%Y-%m-%d %H:%M'' of
        Some meeting_datetime \<Rightarrow> now e \<ge> meeting_datetime
      | None \<Rightarrow> False)"

subsection \<open>Join requests\<close>

definition create_join_request :: "env \<Rightarrow> string \<Rightarrow> db \<Rightarrow> response \<times> db" where
  "create_join_request e room_id d =
     (case meeting_by_room room_id d of
        None \<Rightarrow> (Json 404 (error_json ''Meeting not found''), d)
      | Some meeting \<Rightarrow>
          if \<not> m_is_active meeting then (Json 400 (error_json ''Meeting is not active''), d)
          else if \<not> is_meeting_started e meeting
          then (Json 400 (error_json ''Meeting has not started yet''), d)
          else
            let requester_id = uuid4 e;
                join_request = \<lparr>jr_id = new_id (map jr_id (join_requests d)),
                                jr_meeting_id = m_id meeting,
                                jr_requester = requester_id,
                                jr_status = ''pending'',
                                jr_timestamp = utcnow e,
                                jr_updated_at = utcnow e\<rparr>
            in (Json 201 (JObj [(''success'', JBool True),
                                (''request_id'', JInt (jr_id join_request)),
                                (''requester_id'', JStr requester_id)]),
                d\<lparr>join_requests := join_requests d @ [join_request]\<rparr>))"

definition handle_join_request :: "env \<Rightarrow> int \<Rightarrow> string \<Rightarrow> db \<Rightarrow> response \<times> db" where
  "handle_join_request e request_id action d =
     (case find (\<lambda>r. jr_id r = request_id) (join_requests d) of
        None \<Rightarrow> (Json 404 (error_json ''Request not found''), d)
      | Some join_request \<Rightarrow>
          if action \<in> set [''accept'', ''reject'']
          then (Json 200 success_json,
                d\<lparr>join_requests := update_where (\<lambda>r. jr_id r = jr_id join_request)
                    (\<lambda>r. r\<lparr>jr_status := (if action = ''accept'' then ''accepted'' else ''rejected''),
                           jr_updated_at := utcnow e\<rparr>)
                    (join_requests d)\<rparr>)
          else (Json 400 (error_json ''Invalid action''), d))"

definition get_join_request_status :: "string \<Rightarrow> string option \<Rightarrow> db \<Rightarrow> response" where
  "get_join_request_status room_id requester_arg d =
     (case meeting_by_room room_id d of
        None \<Rightarrow> Json 404 (error_json ''Meeting not found'')
      | Some meeting \<Rightarrow>
          (case requester_arg of
             None \<Rightarrow> Json 200 (JObj [(''status'', JStr ''none'')])
           | Some requester_id \<Rightarrow>
               if requester_id = [] then Json 200 (JObj [(''status'', JStr ''none'')])
               else
                 (case find (\<lambda>r. jr_meeting_id r = m_id meeting \<and> jr_requester r = requester_id)
                         (join_requests d) of
                    Some join_request \<Rightarrow>
                      Json 200 (JObj [(''status'', JStr (jr_status join_request)),
                                      (''request_id'', JInt (jr_id join_request))])
                  | None \<Rightarrow> Json 200 (JObj [(''status'', JStr ''none'')]))))"

definition clear_rejected_request :: "string \<Rightarrow> string option \<Rightarrow> db \<Rightarrow> response \<times> db" where
  "clear_rejected_request room_id requester_arg d =
     (case meeting_by_room room_id d of
        None \<Rightarrow> (Json 404 (error_json ''Meeting not found''), d)
      | Some meeting \<Rightarrow>
          (case requester_arg of
             None \<Rightarrow> (Json 400 (error_json ''Requester ID required''), d)
           | Some requester_id \<Rightarrow>
               if requester_id = [] then (Json 400 (error_json ''Requester ID required''), d)
               else
                 (case find (\<lambda>r. jr_meeting_id r = m_id meeting \<and> jr_requester r = requester_id
                                   \<and> jr_status r = ''rejected'') (join_requests d) of
                    Some join_request \<Rightarrow>
                      (Json 200 success_json,
                       d\<lparr>join_requests :=
                            delete_where (\<lambda>r. jr_id r = jr_id join_request) (join_requests d)\<rparr>)
                  | None \<Rightarrow> (Json 200 success_json, d))))"

definition clear_rejected_requests :: "string \<Rightarrow> db \<Rightarrow> response \<times> db" where
  "clear_rejected_requests room_id d =
     (case meeting_by_room room_id d of
        None \<Rightarrow> (Json 404 (error_json ''Meeting not found''), d)
      | Some meeting \<Rightarrow>
          (Json 200 success_json,
           d\<lparr>join_requests :=
                delete_where (\<lambda>r. jr_meeting_id r = m_id meeting \<and> jr_status r = ''rejected'')
                  (join_requests d)\<rparr>))"

text \<open>
  The two batch routes update with one statement; the \<open>onupdate\<close> default of
  \<open>updated_at\<close> applies to the rows it matches.
\<close>

definition batch_accept_requests :: "env \<Rightarrow> string \<Rightarrow> int list \<Rightarrow> db \<Rightarrow> response \<times> db" where
  "batch_accept_requests e room_id request_ids d =
     (case meeting_by_room room_id d of
        None \<Rightarrow> (Json 404 (error_json ''Meeting not found''), d)
      | Some meeting \<Rightarrow>
          if request_ids = [] then (Json 400 (error_json ''No request IDs provided''), d)
          else
            (Json 200 (JObj [(''success'', JBool True),
                             (''accepted_count'', JInt (int (length request_ids)))]),
             d\<lparr>join_requests :=
                  update_where (\<lambda>r. jr_id r \<in> set request_ids \<and> jr_meeting_id r = m_id meeting)
                    (\<lambda>r. r\<lparr>jr_status := ''accepted'', jr_updated_at := utcnow e\<rparr>)
                    (join_requests d)\<rparr>))"

definition batch_reject_requests :: "env \<Rightarrow> string \<Rightarrow> int list \<Rightarrow> db \<Rightarrow> response \<times> db" where
  "batch_reject_requests e room_id request_ids d =
     (case meeting_by_room room_id d of
        None \<Rightarrow> (Json 404 (error_json ''Meeting not found''), d)
      | Some meeting \<Rightarrow>
          if request_ids = [] then (Json 400 (error_json ''No request IDs provided''), d)
          else
            (Json 200 (JObj [(''success'', JBool True),
                             (''rejected_count'', JInt (int (length request_ids)))]),
             d\<lparr>join_requests :=
                  update_where (\<lambda>r. jr_id r \<in> set request_ids \<and> jr_meeting_id r = m_id meeting)
                    (\<lambda>r. r\<lparr>jr_status := ''rejected'', jr_updated_at := utcnow e\<rparr>)
                    (join_requests d)\<rparr>))"

subsection \<open>Messages\<close>

definition message_json :: "Message \<Rightarrow> json" where
  "message_json m = JObj [(''id'', JInt (msg_id m)),
                          (''sender'', JStr (msg_sender m)),
                          (''message'', JStr (msg_message m)),
                          (''is_image'', JBool (msg_is_image m)),
                          (''timestamp'', JTime (msg_timestamp m))]"

text \<open>
  \<open>since_arg\<close> is \<open>request.args.get('since', 0, type=int)\<close> before the default is
  applied: \<open>None\<close> when the parameter is absent or is not the text of an integer.
\<close>

definition get_messages :: "string \<Rightarrow> int option \<Rightarrow> db \<Rightarrow> response" where
  "get_messages room_id since_arg d =
     (case meeting_by_room room_id d of
        None \<Rightarrow> Json 404 (error_json ''Meeting not found'')
      | Some meeting \<Rightarrow>
          let since = (case since_arg of None \<Rightarrow> 0 | Some n \<Rightarrow> n);
              msgs = sort_key msg_timestamp
                       (filter (\<lambda>m. msg_meeting_id m = m_id meeting \<and> msg_id m > since)
                          (messages d))
          in Json 200 (JList (map message_json msgs)))"

text \<open>
  The body of the request: \<open>sender\<close>, \<open>message\<close> and \<open>is_image\<close> are the values
  under these keys, \<open>None\<close> for a key that is absent. \<open>data['message']\<close> raises KeyError
  on an absent key, and no handler catches it.
\<close>

definition send_message ::
  "env \<Rightarrow> string \<Rightarrow> string option \<Rightarrow> string option \<Rightarrow> bool option \<Rightarrow> db \<Rightarrow> response \<times> db" where
  "send_message e room_id sender_arg message_arg is_image_arg d =
     (case meeting_by_room room_id d of
        None \<Rightarrow> (Json 404 (error_json ''Meeting not found''), d)
      | Some meeting \<Rightarrow>
          (case message_arg of
             None \<Rightarrow> (server_error, d)
           | Some body \<Rightarrow>
               let message = \<lparr>msg_id = new_id (map msg_id (messages d)),
                              msg_meeting_id = m_id meeting,
                              msg_sender = (case sender_arg of None \<Rightarrow> ''User'' | Some s \<Rightarrow> s),
                              msg_message = body,
                              msg_is_image = (case is_image_arg of None \<Rightarrow> False | Some b \<Rightarrow> b),
                              msg_timestamp = utcnow e\<rparr>
               in (Json 200 (JObj [(''success'', JBool True),
                                   (''message_id'', JInt (msg_id message))]),
                   d\<lparr>messages := messages d @ [message]\<rparr>)))"

subsection \<open>Gallery\<close>

text \<open>
  \<open>file_arg\<close> is the file name of the part \<open>image\<close> of the upload, \<open>None\<close> when the
  request has no such part.
\<close>

definition upload_image :: "env \<Rightarrow> string \<Rightarrow> string option \<Rightarrow> db \<Rightarrow> response \<times> db" where
  "upload_image e room_id file_arg d =
     (case meeting_by_room room_id d of
        None \<Rightarrow> (Json 404 (error_json ''Meeting not found''), d)
      | Some meeting \<Rightarrow>
          (case file_arg of
             None \<Rightarrow> (Json 400 (error_json ''No image provided''), d)
           | Some file_name \<Rightarrow>
               if file_name = [] then (Json 400 (error_json ''No image selected''), d)
               else
                 let filename = secure_name e file_name;
                     gallery_image = \<lparr>gi_id = new_id (map gi_id (gallery_images d)),
                                      gi_meeting_id = m_id meeting,
                                      gi_image_path = ''uploads/'' @ room_id @ ''/'' @ filename,
                                      gi_created_at = utcnow e\<rparr>
                 in (Json 200 (JObj [(''success'', JBool True),
                                     (''image_id'', JInt (gi_id gallery_image)),
                                     (''image_path'',
                                        JStr (url_for_static
                                                (''uploads/'' @ room_id @ ''/'' @ filename)))]),
                     d\<lparr>gallery_images := gallery_images d @ [gallery_image]\<rparr>)))"

definition image_json :: "GalleryImage \<Rightarrow> json" where
  "image_json img = JObj [(''id'', JInt (gi_id img)),
                          (''path'', JStr (url_for_static (gi_image_path img))),
                          (''created_at'', JTime (gi_created_at img))]"

text \<open>\<open>order_by(GalleryImage.created_at.desc())\<close>\<close>

definition order_by_created_at_desc :: "GalleryImage list \<Rightarrow> GalleryImage list" where
  "order_by_created_at_desc rows = rev (sort_key gi_created_at rows)"

definition get_gallery_images :: "string \<Rightarrow> string option \<Rightarrow> db \<Rightarrow> response" where
  "get_gallery_images room_id password d =
     (case meeting_by_room room_id d of
        None \<Rightarrow> Json 404 (error_json ''Meeting not found'')
      | Some meeting \<Rightarrow>
          if password \<noteq> Some HARDCODED_PASSWORD
          then Json 401 (error_json ''Invalid password'')
          else
            let images = order_by_created_at_desc
                           (filter (\<lambda>img. gi_meeting_id img = m_id meeting) (gallery_images d))
            in Json 200 (JList (map image_json images)))"

definition delete_image :: "int \<Rightarrow> db \<Rightarrow> response \<times> db" where
  "delete_image image_id d =
     (case find (\<lambda>img. gi_id img = image_id) (gallery_images d) of
        None \<Rightarrow> (Json 404 (error_json ''Image not found''), d)
      | Some found \<Rightarrow>
          (Json 200 success_json,
           d\<lparr>gallery_images := delete_where (\<lambda>img. gi_id img = gi_id found) (gallery_images d)\<rparr>))"

subsection \<open>Watch together\<close>

text \<open>
  The body of each of these requests is a JSON object; an argument is the value under its
  key, \<open>None\<close> for an absent key. A lookup with no room token finds no meeting.
\<close>

definition meeting_by_room_arg :: "string option \<Rightarrow> db \<Rightarrow> Meeting option" where
  "meeting_by_room_arg room_arg d =
     (case room_arg of None \<Rightarrow> None | Some room_id \<Rightarrow> meeting_by_room room_id d)"

text \<open>\<open>YouTubeSession(meeting_id=meeting.id)\<close> as the insert stores it, with the column defaults.\<close>

definition new_session :: "env \<Rightarrow> int \<Rightarrow> db \<Rightarrow> YouTubeSession" where
  "new_session e mid d =
     \<lparr>yt_id = new_id (map yt_id (youtube_sessions d)),
      yt_meeting_id = mid,
      yt_video_id = None,
      yt_video_title = None,
      yt_is_playing = Some False,
      yt_current_time = 0,
      yt_volume = 100,
      yt_playlist = [],
      yt_updated_at = utcnow e\<rparr>"

text \<open>
  The commit of a session object that was loaded and assigned to: the ORM issues an UPDATE
  for the row of its primary key when an assigned value differs from the loaded one, and
  \<open>updated_at\<close> takes its \<open>onupdate\<close> value then; it issues nothing otherwise.
\<close>

definition commit_session ::
  "env \<Rightarrow> YouTubeSession \<Rightarrow> (YouTubeSession \<Rightarrow> YouTubeSession) \<Rightarrow> db \<Rightarrow> db" where
  "commit_session e session assign d =
     (if assign session = session then d
      else d\<lparr>youtube_sessions :=
                update_where (\<lambda>s. yt_id s = yt_id session)
                  (\<lambda>s. (assign s)\<lparr>yt_updated_at := utcnow e\<rparr>) (youtube_sessions d)\<rparr>)"

definition json_of_string_option :: "string option \<Rightarrow> json" where
  "json_of_string_option x = (case x of None \<Rightarrow> JNull | Some s \<Rightarrow> JStr s)"

definition playlist_json :: "playlist_entry list \<Rightarrow> json" where
  "playlist_json entries =
     JList (map (\<lambda>(vid, title, added_at).
                   JObj [(''id'', json_of_string_option vid),
                         (''title'', JStr title),
                         (''added_at'', JStr added_at)]) entries)"

definition session_json :: "YouTubeSession \<Rightarrow> json" where
  "session_json session =
     JObj [(''video_id'', json_of_string_option (yt_video_id session)),
           (''video_title'', json_of_string_option (yt_video_title session)),
           (''is_playing'', (case yt_is_playing session of None \<Rightarrow> JNull | Some b \<Rightarrow> JBool b)),
           (''current_time'', JReal (yt_current_time session)),
           (''volume'', JInt (yt_volume session)),
           (''playlist'', playlist_json (yt_playlist session))]"

definition get_youtube_session :: "env \<Rightarrow> string \<Rightarrow> db \<Rightarrow> response \<times> db" where
  "get_youtube_session e room_id d =
     (case meeting_by_room room_id d of
        None \<Rightarrow> (Json 404 (error_json ''Meeting not found''), d)
      | Some meeting \<Rightarrow>
          (case session_of (m_id meeting) d of
             Some session \<Rightarrow> (Json 200 (session_json session), d)
           | None \<Rightarrow>
               let session = new_session e (m_id meeting) d
               in (Json 200 (session_json session),
                   d\<lparr>youtube_sessions := youtube_sessions d @ [session]\<rparr>)))"

definition youtube_load_video ::
  "env \<Rightarrow> string option \<Rightarrow> string option \<Rightarrow> string option \<Rightarrow> db \<Rightarrow> response \<times> db" where
  "youtube_load_video e room_arg video_id title_arg d =
     (let video_title = (case title_arg of None \<Rightarrow> [] | Some t \<Rightarrow> t);
          assign = (\<lambda>s. s\<lparr>yt_video_id := video_id,
                          yt_video_title := Some video_title,
                          yt_is_playing := Some False,
                          yt_current_time := 0\<rparr>)
      in case meeting_by_room_arg room_arg d of
           None \<Rightarrow> (Json 404 (error_json ''Meeting not found''), d)
         | Some meeting \<Rightarrow>
             (case session_of (m_id meeting) d of
                None \<Rightarrow>
                  (Json 200 success_json,
                   d\<lparr>youtube_sessions :=
                        youtube_sessions d @ [assign (new_session e (m_id meeting) d)]\<rparr>)
              | Some session \<Rightarrow> (Json 200 success_json, commit_session e session assign d)))"

definition youtube_play ::
  "env \<Rightarrow> string option \<Rightarrow> bool option \<Rightarrow> real option \<Rightarrow> db \<Rightarrow> response \<times> db" where
  "youtube_play e room_arg is_playing time_arg d =
     (let current_time = (case time_arg of None \<Rightarrow> 0 | Some t \<Rightarrow> t)
      in case meeting_by_room_arg room_arg d of
           None \<Rightarrow> (Json 404 (error_json ''Meeting not found''), d)
         | Some meeting \<Rightarrow>
             (case session_of (m_id meeting) d of
                Some session \<Rightarrow>
                  (Json 200 success_json,
                   commit_session e session
                     (\<lambda>s. s\<lparr>yt_is_playing := is_playing, yt_current_time := current_time\<rparr>) d)
              | None \<Rightarrow> (Json 200 success_json, d)))"

definition youtube_seek :: "env \<Rightarrow> string option \<Rightarrow> real option \<Rightarrow> db \<Rightarrow> response \<times> db" where
  "youtube_seek e room_arg time_arg d =
     (let current_time = (case time_arg of None \<Rightarrow> 0 | Some t \<Rightarrow> t)
      in case meeting_by_room_arg room_arg d of
           None \<Rightarrow> (Json 404 (error_json ''Meeting not found''), d)
         | Some meeting \<Rightarrow>
             (case session_of (m_id meeting) d of
                Some session \<Rightarrow>
                  (Json 200 success_json,
                   commit_session e session (\<lambda>s. s\<lparr>yt_current_time := current_time\<rparr>) d)
              | None \<Rightarrow> (Json 200 success_json, d)))"

definition youtube_volume :: "env \<Rightarrow> string option \<Rightarrow> int option \<Rightarrow> db \<Rightarrow> response \<times> db" where
  "youtube_volume e room_arg volume_arg d =
     (let volume = (case volume_arg of None \<Rightarrow> 100 | Some v \<Rightarrow> v)
      in case meeting_by_room_arg room_arg d of
           None \<Rightarrow> (Json 404 (error_json ''Meeting not found''), d)
         | Some meeting \<Rightarrow>
             (case session_of (m_id meeting) d of
                Some session \<Rightarrow>
                  (Json 200 success_json,
                   commit_session e session (\<lambda>s. s\<lparr>yt_volume := volume\<rparr>) d)
              | None \<Rightarrow> (Json 200 success_json, d)))"

definition youtube_add_to_playlist ::
  "env \<Rightarrow> string option \<Rightarrow> string option \<Rightarrow> string option \<Rightarrow> db \<Rightarrow> response \<times> db" where
  "youtube_add_to_playlist e room_arg video_id title_arg d =
     (let video_title = (case title_arg of None \<Rightarrow> [] | Some t \<Rightarrow> t)
      in case meeting_by_room_arg room_arg d of
           None \<Rightarrow> (Json 404 (error_json ''Meeting not found''), d)
         | Some meeting \<Rightarrow>
             (case session_of (m_id meeting) d of
                None \<Rightarrow>
                  let playlist = [(video_id, video_title, now_iso e)]
                  in (Json 200 (JObj [(''success'', JBool True),
                                      (''playlist'', playlist_json playlist)]),
                      d\<lparr>youtube_sessions := youtube_sessions d @
                           [(new_session e (m_id meeting) d)\<lparr>yt_playlist := playlist\<rparr>]\<rparr>)
              | Some session \<Rightarrow>
                  if \<not> (\<exists>v \<in> set (yt_playlist session). fst v = video_id)
                  then
                    let playlist = yt_playlist session @ [(video_id, video_title, now_iso e)]
                    in (Json 200 (JObj [(''success'', JBool True),
                                        (''playlist'', playlist_json playlist)]),
                        commit_session e session (\<lambda>s. s\<lparr>yt_playlist := playlist\<rparr>) d)
                  else (Json 200 (JObj [(''success'', JBool True),
                                        (''playlist'', playlist_json (yt_playlist session))]), d)))"

definition youtube_remove_from_playlist ::
  "env \<Rightarrow> string option \<Rightarrow> string option \<Rightarrow> db \<Rightarrow> response \<times> db" where
  "youtube_remove_from_playlist e room_arg video_id d =
     (case meeting_by_room_arg room_arg d of
        None \<Rightarrow> (Json 404 (error_json ''Meeting not found''), d)
      | Some meeting \<Rightarrow>
          (case session_of (m_id meeting) d of
             Some session \<Rightarrow>
               let playlist = filter (\<lambda>v. fst v \<noteq> video_id) (yt_playlist session)
               in (Json 200 success_json,
                   commit_session e session (\<lambda>s. s\<lparr>yt_playlist := playlist\<rparr>) d)
           | None \<Rightarrow> (Json 200 success_json, d)))"

subsection \<open>QR code generation and meeting creation\<close>

text \<open>The dictionary the two generators return: with \<open>success\<close> true or false.\<close>

datatype qr_data =
    QrOk (qr_path: string) (qr_base64: string) (qr_url: string)
  | QrFail (qr_error: string) (qr_url: string)

fun qr_success :: "qr_data \<Rightarrow> bool" where
  "qr_success (QrOk _ _ _) = True"
| "qr_success (QrFail _ _) = False"

definition generate_simple_qr :: "env \<Rightarrow> string \<Rightarrow> string \<Rightarrow> qr_data" where
  "generate_simple_qr e room_id meeting_title =
     (case simple_qr e of
        Inr img_base64 \<Rightarrow>
          QrOk (''qrcodes/'' @ ''qr_simple_'' @ room_id @ ''.png'') img_base64
               (base_url e @ ''/join-request/'' @ room_id)
      | Inl err \<Rightarrow> QrFail err (''/join-request/'' @ room_id))"

definition generate_meeting_qr :: "env \<Rightarrow> string \<Rightarrow> string \<Rightarrow> string \<Rightarrow> string \<Rightarrow> qr_data" where
  "generate_meeting_qr e room_id meeting_title meeting_date meeting_time =
     (case styled_qr e of
        Inr img_base64 \<Rightarrow>
          QrOk (''qrcodes/'' @ ''qr_'' @ room_id @ ''_'' @ now_stamp e @ ''.png'') img_base64
               (base_url e @ ''/join-request/'' @ room_id)
      | Inl err \<Rightarrow> generate_simple_qr e room_id meeting_title)"

text \<open>\<open>meeting.qr_code_path = qr_data['path']\<close> followed by the commit.\<close>

definition set_qr_code_path :: "Meeting \<Rightarrow> string \<Rightarrow> db \<Rightarrow> db" where
  "set_qr_code_path meeting path d =
     d\<lparr>meetings := update_where (\<lambda>m. m_id m = m_id meeting)
                      (\<lambda>m. m\<lparr>m_qr_code_path := Some path\<rparr>) (meetings d)\<rparr>"

definition api_generate_qr :: "env \<Rightarrow> string \<Rightarrow> db \<Rightarrow> response \<times> db" where
  "api_generate_qr e room_id d =
     (case meeting_by_room room_id d of
        None \<Rightarrow> (Json 404 (error_json ''Meeting not found''), d)
      | Some meeting \<Rightarrow>
          (case generate_meeting_qr e (m_room_id meeting) (m_title meeting)
                  (m_date meeting) (m_time meeting) of
             QrOk path b64 url \<Rightarrow>
               (Json 200 (JObj [(''success'', JBool True),
                                (''qr_path'', JStr (url_for_static path)),
                                (''qr_base64'', JStr b64),
                                (''qr_url'', JStr url)]),
                set_qr_code_path meeting path d)
           | QrFail err url \<Rightarrow>
               (Json 500 (JObj [(''success'', JBool False),
                                (''error'', JStr err),
                                (''url'', JStr url)]), d)))"

text \<open>
  The body of the request: \<open>title\<close>, \<open>date\<close> and \<open>time\<close> are read with
  \<open>data[...]\<close>, which raises KeyError on an absent key, and \<open>description\<close> with a
  default. \<open>room_id\<close> is declared unique, so the insert of a token that is already
  stored raises; neither exception is caught. The row is committed before the QR code is
  generated.
\<close>

definition create_meeting ::
  "env \<Rightarrow> string option \<Rightarrow> string option \<Rightarrow> string option \<Rightarrow> string option \<Rightarrow> db
     \<Rightarrow> response \<times> db" where
  "create_meeting e title_arg description_arg date_arg time_arg d =
     (let room_id = uuid4 e
      in case (title_arg, date_arg, time_arg) of
           (Some title, Some date, Some time) \<Rightarrow>
             if room_id \<in> set (map m_room_id (meetings d)) then (server_error, d)
             else
               let meeting = \<lparr>m_id = new_id (map m_id (meetings d)),
                              m_room_id = room_id,
                              m_title = title,
                              m_description =
                                (case description_arg of None \<Rightarrow> [] | Some s \<Rightarrow> s),
                              m_date = date,
                              m_time = time,
                              m_gallery_password = HARDCODED_PASSWORD,
                              m_is_active = True,
                              m_qr_code_path = None,
                              m_created_at = utcnow e\<rparr>;
                   d1 = d\<lparr>meetings := meetings d @ [meeting]\<rparr>;
                   qr = generate_meeting_qr e room_id title date time
               in (case qr of
                     QrOk path b64 url \<Rightarrow>
                       (Json 200 (JObj [(''room_id'', JStr room_id),
                                        (''qr_generated'', JBool True),
                                        (''qr_path'', JStr (url_for_static path))]),
                        set_qr_code_path meeting path d1)
                   | QrFail err url \<Rightarrow>
                       (Json 200 (JObj [(''room_id'', JStr room_id),
                                        (''qr_generated'', JBool False),
                                        (''qr_path'', JNull)]), d1))
         | _ \<Rightarrow> (server_error, d))"

text \<open>
  The page of the links reloads the stored QR image and generates a new one when there is
  none or it could not be read.
\<close>

definition meeting_links :: "env \<Rightarrow> string \<Rightarrow> db \<Rightarrow> response \<times> db" where
  "meeting_links e room_id d =
     (case meeting_by_room room_id d of
        None \<Rightarrow> (not_found_page, d)
      | Some meeting \<Rightarrow>
          let qr_base64 = (case m_qr_code_path meeting of
                             None \<Rightarrow> None
                           | Some p \<Rightarrow> if p = [] then None else qr_file e p)
          in if qr_base64 = None \<or> qr_base64 = Some []
             then (case generate_meeting_qr e (m_room_id meeting) (m_title meeting)
                          (m_date meeting) (m_time meeting) of
                     QrOk path b64 url \<Rightarrow> (Page 200 ''link.html'', set_qr_code_path meeting path d)
                   | QrFail err url \<Rightarrow> (Page 200 ''link.html'', d))
             else (Page 200 ''link.html'', d))"

subsection \<open>The routes as operations on the database\<close>

text \<open>
  One constructor for every route that can write to the database, with the parameters of
  the request. \<open>ReadOnly\<close> stands for a request to any other route: the pages
  (\<open>/\<close>, \<open>/setup\<close>, \<open>/offline.html\<close>, \<open>/manifest.json\<close>, \<open>/qr\<close>, \<open>/qr/download\<close>,
  \<open>/join-request\<close>, \<open>/meet\<close>, \<open>/chat\<close>, \<open>/capture\<close>, \<open>/gallery\<close>,
  \<open>/join-requests\<close>) and the querying API routes (all join requests, their statistics,
  their export, the pending ones, the status of one, the join status, the messages, the
  gallery images, the active flag), none of which adds, assigns or deletes a row.
\<close>

datatype op =
    ApiGenerateQr string
  | CreateMeeting "string option" "string option" "string option" "string option"
  | MeetingLinks string
  | ClearRejectedRequests string
  | BatchAcceptRequests string "int list"
  | BatchRejectRequests string "int list"
  | CreateJoinRequest string
  | HandleJoinRequest int string
  | ClearRejectedRequest string "string option"
  | GetYoutubeSession string
  | YoutubeLoadVideo "string option" "string option" "string option"
  | YoutubePlay "string option" "bool option" "real option"
  | YoutubeSeek "string option" "real option"
  | YoutubeVolume "string option" "int option"
  | YoutubeAddToPlaylist "string option" "string option" "string option"
  | YoutubeRemoveFromPlaylist "string option" "string option"
  | SendMessage string "string option" "string option" "bool option"
  | UploadImage string "string option"
  | DeleteImage int
  | EndMeeting string
  | ReadOnly

fun step :: "env \<Rightarrow> op \<Rightarrow> db \<Rightarrow> db" where
  "step e (ApiGenerateQr room_id) d = snd (api_generate_qr e room_id d)"
| "step e (CreateMeeting title description date time) d =
     snd (create_meeting e title description date time d)"
| "step e (MeetingLinks room_id) d = snd (meeting_links e room_id d)"
| "step e (ClearRejectedRequests room_id) d = snd (clear_rejected_requests room_id d)"
| "step e (BatchAcceptRequests room_id ids) d = snd (batch_accept_requests e room_id ids d)"
| "step e (BatchRejectRequests room_id ids) d = snd (batch_reject_requests e room_id ids d)"
| "step e (CreateJoinRequest room_id) d = snd (create_join_request e room_id d)"
| "step e (HandleJoinRequest request_id action) d =
     snd (handle_join_request e request_id action d)"
| "step e (ClearRejectedRequest room_id requester) d =
     snd (clear_rejected_request room_id requester d)"
| "step e (GetYoutubeSession room_id) d = snd (get_youtube_session e room_id d)"
| "step e (YoutubeLoadVideo room video title) d = snd (youtube_load_video e room video title d)"
| "step e (YoutubePlay room playing t) d = snd (youtube_play e room playing t d)"
| "step e (YoutubeSeek room t) d = snd (youtube_seek e room t d)"
| "step e (YoutubeVolume room v) d = snd (youtube_volume e room v d)"
| "step e (YoutubeAddToPlaylist room video title) d =
     snd (youtube_add_to_playlist e room video title d)"
| "step e (YoutubeRemoveFromPlaylist room video) d =
     snd (youtube_remove_from_playlist e room video d)"
| "step e (SendMessage room_id sender body is_image) d =
     snd (send_message e room_id sender body is_image d)"
| "step e (UploadImage room_id file) d = snd (upload_image e room_id file d)"
| "step e (DeleteImage image_id) d = snd (delete_image image_id d)"
| "step e (EndMeeting room_id) d = snd (end_meeting room_id d)"
| "step e ReadOnly d = d"

text \<open>A sequence of requests, each with its own environment, run from a database.\<close>

fun run :: "(env \<times> op) list \<Rightarrow> db \<Rightarrow> db" where
  "run [] d = d"
| "run ((e, x) # rest) d = run rest (step e x d)"

subsection \<open>The constraints of the schema\<close>

text \<open>
  What the store and \<open>uuid4\<close> guarantee about the join requests: the primary key is
  unique, and every requester identity is a token of its own, not the empty text. Both
  hold of the empty database and every request keeps them, as long as each token that
  \<open>uuid4\<close> hands out is new.
\<close>

definition wf :: "db \<Rightarrow> bool" where
  "wf d \<longleftrightarrow> distinct (map jr_id (join_requests d)) \<and>
            distinct (map jr_requester (join_requests d)) \<and>
            [] \<notin> set (map jr_requester (join_requests d))"

definition fresh :: "env \<Rightarrow> db \<Rightarrow> bool" where
  "fresh e d \<longleftrightarrow> uuid4 e \<noteq> [] \<and> uuid4 e \<notin> set (map jr_requester (join_requests d))"

fun admissible :: "(env \<times> op) list \<Rightarrow> db \<Rightarrow> bool" where
  "admissible [] d = True"
| "admissible ((e, x) # rest) d = (fresh e d \<and> admissible rest (step e x d))"

subsection \<open>Sample data\<close>

definition sample_meeting :: Meeting where
  "sample_meeting = \<lparr>m_id = 1, m_room_id = ''room-a'', m_title = ''Date Night'',
     m_description = [], m_date = ''2025-01-01'', m_time = ''19:00'',
     m_gallery_password = HARDCODED_PASSWORD, m_is_active = True,
     m_qr_code_path = None, m_created_at = (2024, 12, 24, 8, 0, 0, 0)\<rparr>"

definition sample_db :: db where
  "sample_db = empty_db\<lparr>meetings := [sample_meeting]\<rparr>"


definition sample_strptime :: "string \<Rightarrow> string \<Rightarrow> datetime option" where
  "sample_strptime s f =
     (if s = ''2025-01-01 19:00'' \<and> f = ''%Y-%m-%d %H:%M''
      then Some (2025, 1, 1, 19, 0, 0, 0) else None)"

definition early_env :: env where
  "early_env = \<lparr>now = (2025, 1, 1, 18, 59, 0, 0), utcnow = (2025, 1, 1, 17, 59, 0, 0),
     uuid4 = ''u-1'', strptime = sample_strptime, base_url = ''http://localhost:5000'',
     now_stamp = ''20250101_185900'', now_iso = ''2025-01-01T18:59:00'',
     styled_qr = Inl ''no font'', simple_qr = Inl ''no disk'',
     qr_file = (\<lambda>p. None), secure_name = (\<lambda>f. ''u-1_'' @ f)\<rparr>"

definition late_env :: env where
  "late_env = early_env\<lparr>now := (2025, 1, 1, 19, 0, 0, 0), utcnow := (2025, 1, 1, 18, 0, 0, 0),
     uuid4 := ''u-2'', simple_qr := Inr ''iVBORw0KGgo=''\<rparr>"

definition sample_request :: JoinRequest where
  "sample_request = \<lparr>jr_id = 1, jr_meeting_id = 1, jr_requester = ''u-0'',
     jr_status = ''pending'', jr_timestamp = (2025, 1, 1, 17, 30, 0, 0),
     jr_updated_at = (2025, 1, 1, 17, 30, 0, 0)\<rparr>"

definition requests_db :: db where
  "requests_db = sample_db\<lparr>join_requests :=
     [sample_request, sample_request\<lparr>jr_id := 2, jr_requester := ''u-9'',
                                     jr_status := ''rejected''\<rparr>]\<rparr>"

definition gallery_db :: db where
  "gallery_db = sample_db\<lparr>gallery_images :=
     [\<lparr>gi_id = 1, gi_meeting_id = 1, gi_image_path = ''uploads/room-a/a.png'',
       gi_created_at = (2025, 1, 1, 19, 5, 0, 0)\<rparr>,
      \<lparr>gi_id = 2, gi_meeting_id = 1, gi_image_path = ''uploads/room-a/b.png'',
       gi_created_at = (2025, 1, 1, 19, 7, 0, 0)\<rparr>]\<rparr>"

definition playing_db :: db where
  "playing_db = sample_db\<lparr>youtube_sessions :=
     [\<lparr>yt_id = 1, yt_meeting_id = 1, yt_video_id = Some ''dQw4w9WgXcQ'',
       yt_video_title = Some ''first'', yt_is_playing = Some True, yt_current_time = 42,
       yt_volume = 80, yt_playlist = [], yt_updated_at = (2025, 1, 1, 19, 1, 0, 0)\<rparr>]\<rparr>"

section \<open>Properties\<close>

subsection \<open>Queries after an update\<close>

text \<open>
  The first row that satisfies a condition is still the first one after an UPDATE that
  does not change the columns of the condition, and it carries the update if it was
  selected by it.
\<close>

lemma find_update_where:
  assumes "find P rows = Some x" and "\<And>y. P (f y) = P y" and "Q x"
  shows "find P (update_where Q f rows) = Some (f x)"
  using assms(1)
proof (induction rows)
  case Nil
  then show ?case by simp
next
  case (Cons y ys)
  show ?case
  proof (cases "P y")
    case True
    with Cons.prems have "y = x" by simp
    with True assms(2,3) show ?thesis by (simp add: update_where_def)
  next
    case False
    with Cons.prems have "find P ys = Some x" by simp
    from Cons.IH [OF this] False assms(2) show ?thesis by (simp add: update_where_def)
  qed
qed

lemma meeting_by_room_update:
  assumes "meeting_by_room room_id d = Some meeting"
    and "\<And>y. m_room_id (f y) = m_room_id y" and "Q meeting"
  shows "meeting_by_room room_id (d\<lparr>meetings := update_where Q f (meetings d)\<rparr>) = Some (f meeting)"
proof -
  from assms(1) have "find (\<lambda>m. m_room_id m = room_id) (meetings d) = Some meeting"
    by (simp add: meeting_by_room_def)
  from find_update_where [of "\<lambda>m. m_room_id m = room_id" "meetings d" meeting f Q, OF this]
  have "find (\<lambda>m. m_room_id m = room_id) (update_where Q f (meetings d)) = Some (f meeting)"
    using assms(2,3) by simp
  then show ?thesis by (simp add: meeting_by_room_def)
qed

subsection \<open>Ending a meeting\<close>

lemma end_meeting_found:
  "meeting_by_room room_id d = Some meeting \<Longrightarrow>
   end_meeting room_id d = (Json 200 success_json,
      d\<lparr>meetings := update_where (\<lambda>m. m_id m = m_id meeting)
                             (\<lambda>m. m\<lparr>m_is_active := False\<rparr>) (meetings d)\<rparr>)"
  by (simp add: end_meeting_def)

lemma end_meeting_missing:
  "meeting_by_room room_id d = None \<Longrightarrow> end_meeting room_id d = (Json 200 success_json, d)"
  by (simp add: end_meeting_def)

text \<open>
  C10. Ending a meeting answers 200 with \<open>success\<close> true for every room token. For a
  token of no meeting the database is returned as it was, where the check of the active
  flag answers 404 for the same token. For the token of a meeting, the meeting is found
  afterwards with \<open>is_active\<close> false, and the check of the active flag reports it.
\<close>

theorem end_meeting_always_succeeds:
  "fst (end_meeting room_id d) = Json 200 success_json \<and>
   (meeting_by_room room_id d = None \<longrightarrow>
      snd (end_meeting room_id d) = d \<and>
      check_meeting_active room_id d = Json 404 (error_json ''Meeting not found'')) \<and>
   (\<forall>meeting. meeting_by_room room_id d = Some meeting \<longrightarrow>
      meeting_by_room room_id (snd (end_meeting room_id d)) =
        Some (meeting\<lparr>m_is_active := False\<rparr>) \<and>
      check_meeting_active room_id (snd (end_meeting room_id d)) =
        Json 200 (JObj [(''is_active'', JBool False)]))"
proof (cases "meeting_by_room room_id d")
  case None
  then show ?thesis by (simp add: end_meeting_missing check_meeting_active_def)
next
  case (Some meeting)
  let ?d' = "d\<lparr>meetings := update_where (\<lambda>m. m_id m = m_id meeting)
                             (\<lambda>m. m\<lparr>m_is_active := False\<rparr>) (meetings d)\<rparr>"
  have ran: "end_meeting room_id d = (Json 200 success_json, ?d')"
    using Some by (rule end_meeting_found)
  have after: "meeting_by_room room_id ?d' = Some (meeting\<lparr>m_is_active := False\<rparr>)"
    using meeting_by_room_update [OF Some, where f = "\<lambda>m. m\<lparr>m_is_active := False\<rparr>"
        and Q = "\<lambda>m. m_id m = m_id meeting"] by simp
  then have "check_meeting_active room_id ?d' = Json 200 (JObj [(''is_active'', JBool False)])"
    by (simp add: check_meeting_active_def)
  with Some ran after show ?thesis by simp
qed

theorem end_meeting_always_succeeds_witness:
  "meeting_by_room ''room-a'' sample_db = Some sample_meeting \<and>
   meeting_by_room ''room-b'' sample_db = None \<and>
   fst (end_meeting ''room-b'' sample_db) = Json 200 success_json \<and>
   snd (end_meeting ''room-b'' sample_db) = sample_db \<and>
   check_meeting_active ''room-b'' sample_db = Json 404 (error_json ''Meeting not found'') \<and>
   fst (end_meeting ''room-a'' sample_db) = Json 200 success_json \<and>
   check_meeting_active ''room-a'' sample_db = Json 200 (JObj [(''is_active'', JBool True)]) \<and>
   check_meeting_active ''room-a'' (snd (end_meeting ''room-a'' sample_db)) =
     Json 200 (JObj [(''is_active'', JBool False)])"
proof -
  have a: "meeting_by_room ''room-a'' sample_db = Some sample_meeting"
    by (simp add: meeting_by_room_def sample_db_def sample_meeting_def empty_db_def)
  have b: "meeting_by_room ''room-b'' sample_db = None"
    by (simp add: meeting_by_room_def sample_db_def sample_meeting_def empty_db_def)
  have c: "check_meeting_active ''room-a'' sample_db = Json 200 (JObj [(''is_active'', JBool True)])"
    using a by (simp add: check_meeting_active_def sample_meeting_def)
  from a b c end_meeting_always_succeeds [of "''room-a''" sample_db]
    end_meeting_always_succeeds [of "''room-b''" sample_db]
  show ?thesis by simp
qed

lemma find_append_row:
  "find P (rows @ [x]) = (case find P rows of Some y \<Rightarrow> Some y | None \<Rightarrow> if P x then Some x else None)"
  by (induction rows) simp_all

subsection \<open>Accepting a batch of join requests\<close>




subsection \<open>The gallery\<close>

lemma order_by_created_at_desc_sorted:
  "sorted_wrt (\<lambda>a b. gi_created_at a \<ge> gi_created_at b) (order_by_created_at_desc rows)"
proof -
  have "sorted (map gi_created_at (sort_key gi_created_at rows))"
    by (rule sorted_sort_key)
  then have "sorted_wrt (\<lambda>a b. gi_created_at a \<le> gi_created_at b) (sort_key gi_created_at rows)"
    by (simp add: sorted_map)
  then show ?thesis
    by (simp add: order_by_created_at_desc_def sorted_wrt_rev)
qed

lemma order_by_created_at_desc_mset:
  "mset (order_by_created_at_desc rows) = mset rows"
  by (simp add: order_by_created_at_desc_def)

text \<open>
  C5. For a meeting that exists, the listing of the gallery answers 401 for every password
  parameter other than the shared password, an absent one included. With the shared
  password it answers 200 with the images of the meeting, each of them once, in
  descending order of their creation time.
\<close>

theorem gallery_images_password_and_order:
  assumes "meeting_by_room room_id d = Some meeting"
  shows "(password \<noteq> Some HARDCODED_PASSWORD \<longrightarrow>
            get_gallery_images room_id password d = Json 401 (error_json ''Invalid password'')) \<and>
         (\<exists>images.
            get_gallery_images room_id (Some HARDCODED_PASSWORD) d =
              Json 200 (JList (map image_json images)) \<and>
            mset images =
              mset (filter (\<lambda>img. gi_meeting_id img = m_id meeting) (gallery_images d)) \<and>
            sorted_wrt (\<lambda>a b. gi_created_at a \<ge> gi_created_at b) images)"
proof -
  let ?rows = "filter (\<lambda>img. gi_meeting_id img = m_id meeting) (gallery_images d)"
  have denied: "password \<noteq> Some HARDCODED_PASSWORD \<longrightarrow>
      get_gallery_images room_id password d = Json 401 (error_json ''Invalid password'')"
    using assms by (simp add: get_gallery_images_def)
  have listed: "get_gallery_images room_id (Some HARDCODED_PASSWORD) d =
      Json 200 (JList (map image_json (order_by_created_at_desc ?rows)))"
    using assms by (simp add: get_gallery_images_def)
  have "mset (order_by_created_at_desc ?rows) = mset ?rows"
    by (rule order_by_created_at_desc_mset)
  moreover have "sorted_wrt (\<lambda>a b. gi_created_at a \<ge> gi_created_at b)
      (order_by_created_at_desc ?rows)"
    by (rule order_by_created_at_desc_sorted)
  ultimately show ?thesis using denied listed by blast
qed

theorem gallery_images_password_and_order_witness:
  "meeting_by_room ''room-a'' gallery_db = Some sample_meeting \<and>
   Some ''1234'' \<noteq> Some HARDCODED_PASSWORD \<and>
   get_gallery_images ''room-a'' (Some ''1234'') gallery_db =
     Json 401 (error_json ''Invalid password'') \<and>
   get_gallery_images ''room-a'' None gallery_db =
     Json 401 (error_json ''Invalid password'') \<and>
   get_gallery_images ''room-a'' (Some ''16092008'') gallery_db =
     Json 200 (JList
       [JObj [(''id'', JInt 2), (''path'', JStr ''/static/uploads/room-a/b.png''),
              (''created_at'', JTime (2025, 1, 1, 19, 7, 0, 0))],
        JObj [(''id'', JInt 1), (''path'', JStr ''/static/uploads/room-a/a.png''),
              (''created_at'', JTime (2025, 1, 1, 19, 5, 0, 0))]])"
proof -
  have a: "meeting_by_room ''room-a'' gallery_db = Some sample_meeting"
    by (simp add: meeting_by_room_def gallery_db_def sample_db_def sample_meeting_def empty_db_def)
  have b: "Some ''1234'' \<noteq> Some HARDCODED_PASSWORD"
    by (simp add: HARDCODED_PASSWORD_def)
  have c: "get_gallery_images ''room-a'' (Some ''16092008'') gallery_db =
     Json 200 (JList
       [JObj [(''id'', JInt 2), (''path'', JStr ''/static/uploads/room-a/b.png''),
              (''created_at'', JTime (2025, 1, 1, 19, 7, 0, 0))],
        JObj [(''id'', JInt 1), (''path'', JStr ''/static/uploads/room-a/a.png''),
              (''created_at'', JTime (2025, 1, 1, 19, 5, 0, 0))]])"
    using a by (simp add: get_gallery_images_def HARDCODED_PASSWORD_def gallery_db_def
        sample_meeting_def order_by_created_at_desc_def image_json_def url_for_static_def)
  from gallery_images_password_and_order [OF a, of "Some ''1234''"]
    gallery_images_password_and_order [OF a, of None] a b c
  show ?thesis by simp
qed

subsection \<open>Loading a video\<close>

lemma session_of_update:
  assumes "session_of mid d = Some session"
    and "\<And>y. yt_meeting_id (f y) = yt_meeting_id y" and "Q session"
  shows "session_of mid (d\<lparr>youtube_sessions := update_where Q f (youtube_sessions d)\<rparr>)
           = Some (f session)"
proof -
  from assms(1) have "find (\<lambda>s. yt_meeting_id s = mid) (youtube_sessions d) = Some session"
    by (simp add: session_of_def)
  from find_update_where [of "\<lambda>s. yt_meeting_id s = mid" "youtube_sessions d" session f Q, OF this]
  have "find (\<lambda>s. yt_meeting_id s = mid) (update_where Q f (youtube_sessions d)) = Some (f session)"
    using assms(2,3) by simp
  then show ?thesis by (simp add: session_of_def)
qed

lemma session_of_commit:
  assumes "session_of mid d = Some session"
    and "\<And>y. yt_meeting_id (assign y) = yt_meeting_id y"
  shows "\<exists>t. session_of mid (commit_session e session assign d)
           = Some ((assign session)\<lparr>yt_updated_at := t\<rparr>)"
proof (cases "assign session = session")
  case True
  then have "commit_session e session assign d = d"
    by (simp add: commit_session_def)
  moreover have "session = (assign session)\<lparr>yt_updated_at := yt_updated_at session\<rparr>"
    using True by simp
  ultimately show ?thesis using assms(1) by metis
next
  case False
  then have "commit_session e session assign d =
      d\<lparr>youtube_sessions := update_where (\<lambda>s. yt_id s = yt_id session)
                  (\<lambda>s. (assign s)\<lparr>yt_updated_at := utcnow e\<rparr>) (youtube_sessions d)\<rparr>"
    by (simp add: commit_session_def)
  moreover have "session_of mid (d\<lparr>youtube_sessions := update_where (\<lambda>s. yt_id s = yt_id session)
                  (\<lambda>s. (assign s)\<lparr>yt_updated_at := utcnow e\<rparr>) (youtube_sessions d)\<rparr>)
       = Some ((assign session)\<lparr>yt_updated_at := utcnow e\<rparr>)"
    using session_of_update [OF assms(1), where f = "\<lambda>s. (assign s)\<lparr>yt_updated_at := utcnow e\<rparr>"
        and Q = "\<lambda>s. yt_id s = yt_id session"] assms(2) by simp
  ultimately show ?thesis by (intro exI [of _ "utcnow e"]) simp
qed

text \<open>
  C4. For a meeting that exists, loading a video answers 200, and the session of the meeting
  afterwards holds the video id and the title of the request (the empty title when none was
  sent), position 0 and the playing flag false, whatever the session held before and also
  when there was none.
\<close>

theorem youtube_load_video_resets_playback:
  assumes "meeting_by_room_arg room_arg d = Some meeting"
  shows "fst (youtube_load_video e room_arg video_id title_arg d) = Json 200 success_json \<and>
         (\<exists>session.
            session_of (m_id meeting) (snd (youtube_load_video e room_arg video_id title_arg d))
              = Some session \<and>
            yt_video_id session = video_id \<and>
            yt_video_title session = Some (case title_arg of None \<Rightarrow> [] | Some t \<Rightarrow> t) \<and>
            yt_current_time session = 0 \<and>
            yt_is_playing session = Some False)"
proof (cases "session_of (m_id meeting) d")
  case None
  let ?new = "(new_session e (m_id meeting) d)\<lparr>yt_video_id := video_id,
      yt_video_title := Some (case title_arg of None \<Rightarrow> [] | Some t \<Rightarrow> t),
      yt_is_playing := Some False, yt_current_time := 0\<rparr>"
  have ran: "youtube_load_video e room_arg video_id title_arg d =
      (Json 200 success_json, d\<lparr>youtube_sessions := youtube_sessions d @ [?new]\<rparr>)"
    using assms None by (simp add: youtube_load_video_def)
  have "session_of (m_id meeting) (d\<lparr>youtube_sessions := youtube_sessions d @ [?new]\<rparr>) = Some ?new"
    using None by (simp add: session_of_def find_append_row new_session_def)
  with ran show ?thesis by simp
next
  case (Some session)
  let ?assign = "\<lambda>s. s\<lparr>yt_video_id := video_id,
      yt_video_title := Some (case title_arg of None \<Rightarrow> [] | Some t \<Rightarrow> t),
      yt_is_playing := Some False, yt_current_time := 0\<rparr>"
  have ran: "youtube_load_video e room_arg video_id title_arg d =
      (Json 200 success_json, commit_session e session ?assign d)"
    using assms Some by (simp add: youtube_load_video_def)
  obtain t where "session_of (m_id meeting) (commit_session e session ?assign d)
      = Some ((?assign session)\<lparr>yt_updated_at := t\<rparr>)"
    using session_of_commit [OF Some, where assign = ?assign and e = e] by auto
  with ran show ?thesis by simp
qed

theorem youtube_load_video_resets_playback_witness:
  "meeting_by_room_arg (Some ''room-a'') playing_db = Some sample_meeting \<and>
   map (\<lambda>s. (yt_is_playing s, yt_current_time s)) (youtube_sessions playing_db) = [(Some True, 42)] \<and>
   fst (youtube_load_video late_env (Some ''room-a'') (Some ''abc'') (Some ''second'') playing_db)
     = Json 200 success_json \<and>
   map (\<lambda>s. (yt_video_id s, yt_video_title s, yt_is_playing s, yt_current_time s, yt_volume s))
     (youtube_sessions
        (snd (youtube_load_video late_env (Some ''room-a'') (Some ''abc'') (Some ''second'') playing_db)))
     = [(Some ''abc'', Some ''second'', Some False, 0, 80)]"
proof -
  have a: "meeting_by_room_arg (Some ''room-a'') playing_db = Some sample_meeting"
    by (simp add: meeting_by_room_arg_def meeting_by_room_def playing_db_def sample_db_def
        sample_meeting_def empty_db_def)
  have b: "session_of 1 playing_db = Some (hd (youtube_sessions playing_db))"
    by (simp add: session_of_def playing_db_def)
  from youtube_load_video_resets_playback [OF a, of late_env "Some ''abc''" "Some ''second''"]
  have c: "fst (youtube_load_video late_env (Some ''room-a'') (Some ''abc'') (Some ''second'') playing_db)
     = Json 200 success_json" by simp
  show ?thesis using a b c
    by (simp add: youtube_load_video_def commit_session_def update_where_def sample_meeting_def
      playing_db_def)
qed

subsection \<open>QR codes and the creation of a meeting\<close>






subsection \<open>Asking to join\<close>




subsection \<open>Primary keys\<close>

lemma new_id_greater: "i \<in> set ids \<Longrightarrow> i < new_id ids"
proof -
  assume "i \<in> set ids"
  then have "i \<le> Max (set ids)" and "ids \<noteq> []" by auto
  then show ?thesis by (cases ids) (simp_all add: new_id_def)
qed

lemma new_id_not_used: "new_id ids \<notin> set ids"
  using new_id_greater [of "new_id ids" ids] by auto

lemma new_id_after_insert: "new_id (ids @ [new_id ids]) = new_id ids + 1"
proof (cases ids)
  case Nil
  then show ?thesis by (simp add: new_id_def)
next
  case (Cons i rest)
  then have "ids @ [new_id ids] = i # (rest @ [new_id ids])" by simp
  then have "new_id (ids @ [new_id ids]) = Max (set (ids @ [new_id ids])) + 1"
    by (simp add: new_id_def)
  moreover have "Max (set (ids @ [new_id ids])) = new_id ids"
  proof (rule Max_eqI)
    show "finite (set (ids @ [new_id ids]))" by simp
    show "new_id ids \<in> set (ids @ [new_id ids])" by simp
    fix y assume "y \<in> set (ids @ [new_id ids])"
    then have "y = new_id ids \<or> y \<in> set ids" by auto
    then show "y \<le> new_id ids" using new_id_greater [of y ids] by auto
  qed
  ultimately show ?thesis by simp
qed

subsection \<open>Messages\<close>

lemma meeting_by_room_messages [simp]:
  "meeting_by_room room_id (d\<lparr>messages := ms\<rparr>) = meeting_by_room room_id d"
  by (simp add: meeting_by_room_def)

lemma send_message_found:
  assumes "meeting_by_room room_id d = Some meeting"
  shows "send_message e room_id sender_arg (Some body) is_image_arg d =
     (Json 200 (JObj [(''success'', JBool True),
                      (''message_id'', JInt (new_id (map msg_id (messages d))))]),
      d\<lparr>messages := messages d @
           [\<lparr>msg_id = new_id (map msg_id (messages d)),
             msg_meeting_id = m_id meeting,
             msg_sender = (case sender_arg of None \<Rightarrow> ''User'' | Some s \<Rightarrow> s),
             msg_message = body,
             msg_is_image = (case is_image_arg of None \<Rightarrow> False | Some b \<Rightarrow> b),
             msg_timestamp = utcnow e\<rparr>]\<rparr>)"
  using assms by (simp add: send_message_def Let_def)

lemma get_messages_found:
  assumes "meeting_by_room room_id d = Some meeting"
  shows "get_messages room_id (Some since) d =
     Json 200 (JList (map message_json (sort_key msg_timestamp
       (filter (\<lambda>m. msg_meeting_id m = m_id meeting \<and> msg_id m > since) (messages d)))))"
  using assms by (simp add: get_messages_def)

text \<open>
  C3. For a meeting that exists, two messages sent one after the other are both stored,
  the second with the larger id, and the listing of the messages with \<open>since\<close> set to
  the id of the first answers with the second message and nothing else, whatever the
  table held before.
\<close>

theorem messages_since_first_returns_second:
  assumes "meeting_by_room room_id d = Some meeting"
  shows "\<exists>first second d1 d2.
     send_message e1 room_id sender1 (Some body1) is_image1 d =
       (Json 200 (JObj [(''success'', JBool True), (''message_id'', JInt (msg_id first))]), d1) \<and>
     send_message e2 room_id sender2 (Some body2) is_image2 d1 =
       (Json 200 (JObj [(''success'', JBool True), (''message_id'', JInt (msg_id second))]), d2) \<and>
     messages d2 = messages d @ [first, second] \<and>
     msg_message first = body1 \<and> msg_message second = body2 \<and>
     msg_id first < msg_id second \<and>
     get_messages room_id (Some (msg_id first)) d2 = Json 200 (JList [message_json second])"
proof -
  let ?id1 = "new_id (map msg_id (messages d))"
  let ?first = "\<lparr>msg_id = ?id1, msg_meeting_id = m_id meeting,
     msg_sender = (case sender1 of None \<Rightarrow> ''User'' | Some s \<Rightarrow> s), msg_message = body1,
     msg_is_image = (case is_image1 of None \<Rightarrow> False | Some b \<Rightarrow> b),
     msg_timestamp = utcnow e1\<rparr>"
  let ?d1 = "d\<lparr>messages := messages d @ [?first]\<rparr>"
  let ?second = "\<lparr>msg_id = ?id1 + 1, msg_meeting_id = m_id meeting,
     msg_sender = (case sender2 of None \<Rightarrow> ''User'' | Some s \<Rightarrow> s), msg_message = body2,
     msg_is_image = (case is_image2 of None \<Rightarrow> False | Some b \<Rightarrow> b),
     msg_timestamp = utcnow e2\<rparr>"
  let ?d2 = "d\<lparr>messages := messages d @ [?first, ?second]\<rparr>"
  have one: "send_message e1 room_id sender1 (Some body1) is_image1 d =
       (Json 200 (JObj [(''success'', JBool True), (''message_id'', JInt (msg_id ?first))]), ?d1)"
    using send_message_found [OF assms] by simp
  have m1: "meeting_by_room room_id ?d1 = Some meeting" using assms by simp
  have ids1: "map msg_id (messages ?d1) = map msg_id (messages d) @ [?id1]" by simp
  have "new_id (map msg_id (messages ?d1)) = ?id1 + 1"
    unfolding ids1 by (rule new_id_after_insert)
  with send_message_found [OF m1, of e2 sender2 body2 is_image2]
  have two: "send_message e2 room_id sender2 (Some body2) is_image2 ?d1 =
       (Json 200 (JObj [(''success'', JBool True), (''message_id'', JInt (msg_id ?second))]), ?d2)"
    by simp
  have m2: "meeting_by_room room_id ?d2 = Some meeting" using assms by simp
  have old: "filter (\<lambda>m. msg_meeting_id m = m_id meeting \<and> msg_id m > ?id1) (messages d) = []"
  proof -
    have "\<not> msg_id m > ?id1" if "m \<in> set (messages d)" for m
      using new_id_greater [of "msg_id m" "map msg_id (messages d)"] that by auto
    then show ?thesis by (simp add: filter_empty_conv)
  qed
  have "filter (\<lambda>m. msg_meeting_id m = m_id meeting \<and> msg_id m > ?id1) (messages ?d2) = [?second]"
    using old by simp
  with get_messages_found [OF m2, of ?id1]
  have three: "get_messages room_id (Some (msg_id ?first)) ?d2 = Json 200 (JList [message_json ?second])"
    by simp
  have "messages ?d2 = messages d @ [?first, ?second]" by simp
  moreover have "msg_message ?first = body1" "msg_message ?second = body2"
    "msg_id ?first < msg_id ?second" by simp_all
  ultimately show ?thesis using one two three by blast
qed

theorem messages_since_first_returns_second_witness:
  "meeting_by_room ''room-a'' sample_db = Some sample_meeting \<and>
   fst (send_message early_env ''room-a'' (Some ''A'') (Some ''hi'') None sample_db) =
     Json 200 (JObj [(''success'', JBool True), (''message_id'', JInt 1)]) \<and>
   get_messages ''room-a'' (Some 1)
     (snd (send_message late_env ''room-a'' None (Some ''there'') None
        (snd (send_message early_env ''room-a'' (Some ''A'') (Some ''hi'') None sample_db)))) =
     Json 200 (JList [JObj [(''id'', JInt 2), (''sender'', JStr ''User''),
                            (''message'', JStr ''there''), (''is_image'', JBool False),
                            (''timestamp'', JTime (2025, 1, 1, 18, 0, 0, 0))]])"
proof -
  have a: "meeting_by_room ''room-a'' sample_db = Some sample_meeting"
    by (simp add: meeting_by_room_def sample_db_def sample_meeting_def empty_db_def)
  have b: "messages sample_db = []"
    by (simp add: sample_db_def empty_db_def)
  from messages_since_first_returns_second [OF a, of early_env "Some ''A''" "''hi''" None
      late_env None "''there''" None]
  show ?thesis
  proof (elim exE conjE)
    fix first second d1 d2
    assume one: "send_message early_env ''room-a'' (Some ''A'') (Some ''hi'') None sample_db =
       (Json 200 (JObj [(''success'', JBool True), (''message_id'', JInt (msg_id first))]), d1)"
      and two: "send_message late_env ''room-a'' None (Some ''there'') None d1 =
       (Json 200 (JObj [(''success'', JBool True), (''message_id'', JInt (msg_id second))]), d2)"
      and rows: "messages d2 = messages sample_db @ [first, second]"
      and listed: "get_messages ''room-a'' (Some (msg_id first)) d2 =
       Json 200 (JList [message_json second])"
    have first: "msg_id first = 1"
      using one a b by (simp add: send_message_def new_id_def)
    have d1: "d1 = snd (send_message early_env ''room-a'' (Some ''A'') (Some ''hi'') None sample_db)"
      using one by simp
    have d2: "d2 = snd (send_message late_env ''room-a'' None (Some ''there'') None d1)"
      using two by simp
    have "messages d2 =
        [\<lparr>msg_id = 1, msg_meeting_id = 1, msg_sender = ''A'', msg_message = ''hi'',
          msg_is_image = False, msg_timestamp = (2025, 1, 1, 17, 59, 0, 0)\<rparr>,
         \<lparr>msg_id = 2, msg_meeting_id = 1, msg_sender = ''User'', msg_message = ''there'',
          msg_is_image = False, msg_timestamp = (2025, 1, 1, 18, 0, 0, 0)\<rparr>]"
      unfolding d2 d1 using a b
      by (simp add: send_message_def new_id_def sample_meeting_def late_env_def early_env_def)
    with rows b have "message_json second =
        JObj [(''id'', JInt 2), (''sender'', JStr ''User''), (''message'', JStr ''there''),
              (''is_image'', JBool False), (''timestamp'', JTime (2025, 1, 1, 18, 0, 0, 0))]"
      by (auto simp: message_json_def)
    with listed first have "get_messages ''room-a'' (Some 1) d2 =
        Json 200 (JList [JObj [(''id'', JInt 2), (''sender'', JStr ''User''),
                               (''message'', JStr ''there''), (''is_image'', JBool False),
                               (''timestamp'', JTime (2025, 1, 1, 18, 0, 0, 0))]])"
      by simp
    then have listed': "get_messages ''room-a'' (Some 1)
        (snd (send_message late_env ''room-a'' None (Some ''there'') None
           (snd (send_message early_env ''room-a'' (Some ''A'') (Some ''hi'') None sample_db)))) =
        Json 200 (JList [JObj [(''id'', JInt 2), (''sender'', JStr ''User''),
                               (''message'', JStr ''there''), (''is_image'', JBool False),
                               (''timestamp'', JTime (2025, 1, 1, 18, 0, 0, 0))]])"
      unfolding d2 d1 .
    have answered: "fst (send_message early_env ''room-a'' (Some ''A'') (Some ''hi'') None sample_db)
        = Json 200 (JObj [(''success'', JBool True), (''message_id'', JInt 1)])"
      using one first by simp
    from a answered listed' show ?thesis by simp
  qed
qed

subsection \<open>Rows under UPDATE and DELETE\<close>

lemma map_update_where:
  assumes "\<And>y. k (f y) = k y"
  shows "map k (update_where Q f rows) = map k rows"
  using assms by (induction rows) (simp_all add: update_where_def)

lemma distinct_map_delete_where:
  "distinct (map k rows) \<Longrightarrow> distinct (map k (delete_where Q rows))"
  by (simp add: delete_where_def distinct_map_filter)

lemma set_delete_where_subset: "set (delete_where Q rows) \<subseteq> set rows"
  by (auto simp: delete_where_def)

lemma same_key_same_row:
  assumes "distinct (map k rows)" and "a \<in> set rows" and "b \<in> set rows" and "k a = k b"
  shows "a = b"
proof -
  from assms(1) have "inj_on k (set rows)" by (simp add: distinct_map)
  with assms(2-4) show ?thesis by (simp add: inj_on_eq_iff)
qed

lemma find_unique:
  assumes "distinct (map k rows)" and "r \<in> set rows" and "P r"
    and "\<And>x. x \<in> set rows \<Longrightarrow> P x \<Longrightarrow> k x = k r"
  shows "find P rows = Some r"
proof -
  from assms(2,3) have "find P rows \<noteq> None" by (auto simp: find_None_iff)
  then obtain x where x: "find P rows = Some x" by auto
  then have "x \<in> set rows" and "P x"
    by (auto simp: find_Some_iff in_set_conv_nth)
  with assms(4) have "k x = k r" by simp
  with same_key_same_row [OF assms(1) \<open>x \<in> set rows\<close> assms(2)] have "x = r" by simp
  with x show ?thesis by simp
qed


subsection \<open>Accepting a join request\<close>

lemma meeting_by_room_join_requests [simp]:
  "meeting_by_room room_id (d\<lparr>join_requests := rs\<rparr>) = meeting_by_room room_id d"
  by (simp add: meeting_by_room_def)

lemma handle_join_request_found:
  assumes "find (\<lambda>x. jr_id x = request_id) (join_requests d) = Some r"
  shows "handle_join_request e request_id ''accept'' d =
     (Json 200 success_json,
      d\<lparr>join_requests := update_where (\<lambda>x. jr_id x = jr_id r)
           (\<lambda>x. x\<lparr>jr_status := ''accepted'', jr_updated_at := utcnow e\<rparr>) (join_requests d)\<rparr>)"
  using assms by (simp add: handle_join_request_def)

text \<open>
  C2. In a database that satisfies the constraints of the schema, for a join request that
  exists and the room token of its meeting: accepting the request answers 200, the request
  is found under its id with status \<open>accepted\<close>, and the status route, asked next with
  the requester id of the request, answers \<open>accepted\<close> with the id of the request.
\<close>

theorem accept_is_reflected_by_status:
  assumes "wf d" and "r \<in> set (join_requests d)"
    and "meeting_by_room room_id d = Some meeting" and "m_id meeting = jr_meeting_id r"
  shows "fst (handle_join_request e (jr_id r) ''accept'' d) = Json 200 success_json \<and>
         find (\<lambda>x. jr_id x = jr_id r) (join_requests (snd (handle_join_request e (jr_id r) ''accept'' d)))
           = Some (r\<lparr>jr_status := ''accepted'', jr_updated_at := utcnow e\<rparr>) \<and>
         get_join_request_status room_id (Some (jr_requester r))
           (snd (handle_join_request e (jr_id r) ''accept'' d)) =
           Json 200 (JObj [(''status'', JStr ''accepted''), (''request_id'', JInt (jr_id r))])"
proof -
  let ?f = "\<lambda>x. x\<lparr>jr_status := ''accepted'', jr_updated_at := utcnow e\<rparr>"
  let ?rows = "update_where (\<lambda>x. jr_id x = jr_id r) ?f (join_requests d)"
  let ?d' = "d\<lparr>join_requests := ?rows\<rparr>"
  let ?P = "\<lambda>x. jr_meeting_id x = m_id meeting \<and> jr_requester x = jr_requester r"
  from assms(1) have ids: "distinct (map jr_id (join_requests d))"
    and names: "distinct (map jr_requester (join_requests d))"
    and nonempty: "[] \<notin> set (map jr_requester (join_requests d))"
    by (simp_all add: wf_def)
  have "jr_requester r \<in> set (map jr_requester (join_requests d))"
    using assms(2) by simp
  with nonempty have named: "jr_requester r \<noteq> []" by metis
  have by_id: "find (\<lambda>x. jr_id x = jr_id r) (join_requests d) = Some r"
    using ids assms(2) by (rule find_unique) simp_all
  have ran: "handle_join_request e (jr_id r) ''accept'' d = (Json 200 success_json, ?d')"
    using by_id by (rule handle_join_request_found)
  have by_id': "find (\<lambda>x. jr_id x = jr_id r) ?rows = Some (?f r)"
    using find_update_where [OF by_id, where f = ?f and Q = "\<lambda>x. jr_id x = jr_id r"] by simp
  have by_name: "find ?P (join_requests d) = Some r"
    using names assms(2) by (rule find_unique) (simp_all add: assms(4))
  have by_name': "find ?P ?rows = Some (?f r)"
    using find_update_where [OF by_name, where f = ?f and Q = "\<lambda>x. jr_id x = jr_id r"] by simp
  have "get_join_request_status room_id (Some (jr_requester r)) ?d' =
      Json 200 (JObj [(''status'', JStr ''accepted''), (''request_id'', JInt (jr_id r))])"
    using assms(3) named by_name' by (simp add: get_join_request_status_def)
  with ran by_id' show ?thesis by simp
qed

theorem accept_is_reflected_by_status_witness:
  "wf requests_db \<and> sample_request \<in> set (join_requests requests_db) \<and>
   meeting_by_room ''room-a'' requests_db = Some sample_meeting \<and>
   m_id sample_meeting = jr_meeting_id sample_request \<and>
   get_join_request_status ''room-a'' (Some ''u-0'') requests_db =
     Json 200 (JObj [(''status'', JStr ''pending''), (''request_id'', JInt 1)]) \<and>
   fst (handle_join_request late_env 1 ''accept'' requests_db) = Json 200 success_json \<and>
   get_join_request_status ''room-a'' (Some ''u-0'')
     (snd (handle_join_request late_env 1 ''accept'' requests_db)) =
     Json 200 (JObj [(''status'', JStr ''accepted''), (''request_id'', JInt 1)])"
proof -
  have a: "wf requests_db"
    by (simp add: wf_def requests_db_def sample_request_def)
  have b: "sample_request \<in> set (join_requests requests_db)"
    by (simp add: requests_db_def)
  have c: "meeting_by_room ''room-a'' requests_db = Some sample_meeting"
    by (simp add: meeting_by_room_def requests_db_def sample_db_def sample_meeting_def empty_db_def)
  have d: "m_id sample_meeting = jr_meeting_id sample_request"
    by (simp add: sample_meeting_def sample_request_def)
  have e: "get_join_request_status ''room-a'' (Some ''u-0'') requests_db =
     Json 200 (JObj [(''status'', JStr ''pending''), (''request_id'', JInt 1)])"
    using c by (simp add: get_join_request_status_def requests_db_def sample_request_def
        sample_meeting_def)
  have f: "jr_id sample_request = 1" "jr_requester sample_request = ''u-0''"
    by (simp_all add: sample_request_def)
  from accept_is_reflected_by_status [OF a b c d, of late_env] a b c d e f
  show ?thesis by simp
qed

subsection \<open>What each route leaves alone\<close>

lemma commit_session_frame [simp]:
  "join_requests (commit_session e session assign d) = join_requests d"
  "messages (commit_session e session assign d) = messages d"
  by (simp_all add: commit_session_def)

lemma set_qr_code_path_frame [simp]:
  "join_requests (set_qr_code_path meeting path d) = join_requests d"
  "messages (set_qr_code_path meeting path d) = messages d"
  by (simp_all add: set_qr_code_path_def)

lemma api_generate_qr_frame [simp]:
  "join_requests (snd (api_generate_qr e room_id d)) = join_requests d"
  "messages (snd (api_generate_qr e room_id d)) = messages d"
  by (simp_all add: api_generate_qr_def split: option.splits qr_data.splits)

lemma create_meeting_frame [simp]:
  "join_requests (snd (create_meeting e title description date time d)) = join_requests d"
  "messages (snd (create_meeting e title description date time d)) = messages d"
  by (simp_all add: create_meeting_def Let_def split: option.splits qr_data.splits)

lemma meeting_links_frame [simp]:
  "join_requests (snd (meeting_links e room_id d)) = join_requests d"
  "messages (snd (meeting_links e room_id d)) = messages d"
  by (simp_all add: meeting_links_def Let_def split: option.splits qr_data.splits)

lemma get_youtube_session_frame [simp]:
  "join_requests (snd (get_youtube_session e room_id d)) = join_requests d"
  "messages (snd (get_youtube_session e room_id d)) = messages d"
  by (simp_all add: get_youtube_session_def Let_def split: option.splits)

lemma youtube_load_video_frame [simp]:
  "join_requests (snd (youtube_load_video e room video title d)) = join_requests d"
  "messages (snd (youtube_load_video e room video title d)) = messages d"
  by (simp_all add: youtube_load_video_def Let_def split: option.splits)

lemma youtube_play_frame [simp]:
  "join_requests (snd (youtube_play e room playing t d)) = join_requests d"
  "messages (snd (youtube_play e room playing t d)) = messages d"
  by (simp_all add: youtube_play_def Let_def split: option.splits)

lemma youtube_seek_frame [simp]:
  "join_requests (snd (youtube_seek e room t d)) = join_requests d"
  "messages (snd (youtube_seek e room t d)) = messages d"
  by (simp_all add: youtube_seek_def Let_def split: option.splits)

lemma youtube_volume_frame [simp]:
  "join_requests (snd (youtube_volume e room v d)) = join_requests d"
  "messages (snd (youtube_volume e room v d)) = messages d"
  by (simp_all add: youtube_volume_def Let_def split: option.splits)

lemma youtube_add_to_playlist_frame [simp]:
  "join_requests (snd (youtube_add_to_playlist e room video title d)) = join_requests d"
  "messages (snd (youtube_add_to_playlist e room video title d)) = messages d"
  by (simp_all add: youtube_add_to_playlist_def Let_def split: option.splits)

lemma youtube_remove_from_playlist_frame [simp]:
  "join_requests (snd (youtube_remove_from_playlist e room video d)) = join_requests d"
  "messages (snd (youtube_remove_from_playlist e room video d)) = messages d"
  by (simp_all add: youtube_remove_from_playlist_def Let_def split: option.splits)

lemma upload_image_frame [simp]:
  "join_requests (snd (upload_image e room_id file d)) = join_requests d"
  "messages (snd (upload_image e room_id file d)) = messages d"
  by (simp_all add: upload_image_def Let_def split: option.splits)

lemma delete_image_frame [simp]:
  "join_requests (snd (delete_image image_id d)) = join_requests d"
  "messages (snd (delete_image image_id d)) = messages d"
  by (simp_all add: delete_image_def split: option.splits)

lemma end_meeting_frame [simp]:
  "join_requests (snd (end_meeting room_id d)) = join_requests d"
  "messages (snd (end_meeting room_id d)) = messages d"
  by (simp_all add: end_meeting_def split: option.splits)

lemma send_message_join_requests [simp]:
  "join_requests (snd (send_message e room_id sender body is_image d)) = join_requests d"
  by (simp add: send_message_def Let_def split: option.splits)

lemma join_request_routes_messages [simp]:
  "messages (snd (clear_rejected_requests room_id d)) = messages d"
  "messages (snd (batch_accept_requests e room_id ids d)) = messages d"
  "messages (snd (batch_reject_requests e room_id ids d)) = messages d"
  "messages (snd (create_join_request e room_id d)) = messages d"
  "messages (snd (handle_join_request e request_id action d)) = messages d"
  "messages (snd (clear_rejected_request room_id requester d)) = messages d"
  by (simp_all add: clear_rejected_requests_def batch_accept_requests_def
      batch_reject_requests_def create_join_request_def handle_join_request_def
      clear_rejected_request_def Let_def split: option.splits)

subsection \<open>Messages are only appended\<close>

lemma send_message_messages:
  "messages (snd (send_message e room_id sender body is_image d)) = messages d \<or>
   (\<exists>text m. body = Some text \<and> msg_message m = text \<and>
      messages (snd (send_message e room_id sender body is_image d)) = messages d @ [m])"
  by (simp add: send_message_def Let_def split: option.splits)

lemma step_messages:
  "messages (step e x d) = messages d \<or>
   (\<exists>room_id sender text is_image m.
      x = SendMessage room_id sender (Some text) is_image \<and> msg_message m = text \<and>
      messages (step e x d) = messages d @ [m])"
proof (cases x)
  case (SendMessage room_id sender body is_image)
  with send_message_messages [of e room_id sender body is_image d] show ?thesis by auto
qed simp_all

lemma run_messages: "\<exists>added. messages (run rs d) = messages d @ added"
proof (induction rs arbitrary: d)
  case Nil
  then show ?case by simp
next
  case (Cons a rs)
  obtain e x where a: "a = (e, x)" by (cases a)
  from step_messages [of e x d] obtain one where one: "messages (step e x d) = messages d @ one"
    by auto
  from Cons.IH [of "step e x d"] obtain more
    where "messages (run rs (step e x d)) = messages (step e x d) @ more" by auto
  with one a have "messages (run (a # rs) d) = messages d @ (one @ more)" by simp
  then show ?case by blast
qed

text \<open>
  C7. Message rows are only appended. A request of any route either leaves the table of
  messages as it was or is a send-message request that carries a text, and then the table
  is the old one followed by one new row with that text. Hence after any sequence of
  requests the table starts with the rows it had before, unchanged and in place.
\<close>

theorem messages_append_only:
  "(messages (step e x d) = messages d \<or>
    (\<exists>room_id sender text is_image m.
       x = SendMessage room_id sender (Some text) is_image \<and> msg_message m = text \<and>
       messages (step e x d) = messages d @ [m])) \<and>
   (\<exists>added. messages (run rs d) = messages d @ added)"
  using step_messages [of e x d] run_messages [of rs d] by blast

theorem messages_append_only_witness:
  "messages (step early_env (SendMessage ''room-a'' (Some ''A'') (Some ''hi'') None) sample_db) =
     messages sample_db @
     [\<lparr>msg_id = 1, msg_meeting_id = 1, msg_sender = ''A'', msg_message = ''hi'',
       msg_is_image = False, msg_timestamp = (2025, 1, 1, 17, 59, 0, 0)\<rparr>] \<and>
   messages (step late_env (EndMeeting ''room-a'') sample_db) = messages sample_db \<and>
   map msg_message
     (messages (run [(early_env, SendMessage ''room-a'' (Some ''A'') (Some ''hi'') None),
                     (late_env, EndMeeting ''room-a''),
                     (late_env, DeleteImage 1),
                     (late_env, SendMessage ''room-a'' None (Some ''there'') None)] sample_db)) =
     [''hi'', ''there'']"
proof -
  have a: "meeting_by_room ''room-a'' sample_db = Some sample_meeting"
    by (simp add: meeting_by_room_def sample_db_def sample_meeting_def empty_db_def)
  have b: "messages sample_db = []" "meetings sample_db = [sample_meeting]"
    "gallery_images sample_db = []"
    by (simp_all add: sample_db_def empty_db_def)
  from messages_append_only [of early_env "SendMessage ''room-a'' (Some ''A'') (Some ''hi'') None"
      sample_db "[(early_env, SendMessage ''room-a'' (Some ''A'') (Some ''hi'') None),
                     (late_env, EndMeeting ''room-a''),
                     (late_env, DeleteImage 1),
                     (late_env, SendMessage ''room-a'' None (Some ''there'') None)]"]
    messages_append_only [of late_env "EndMeeting ''room-a''" sample_db "[]"] a b
  show ?thesis
    by (simp add: send_message_def end_meeting_def delete_image_def meeting_by_room_def
        update_where_def new_id_def sample_meeting_def late_env_def early_env_def)
qed

subsection \<open>The constraints are kept\<close>

lemma wf_same: "wf d \<Longrightarrow> join_requests d' = join_requests d \<Longrightarrow> wf d'"
  by (simp add: wf_def)

lemma wf_update:
  assumes "wf d" and "join_requests d' = update_where Q f (join_requests d)"
    and "\<And>y. jr_id (f y) = jr_id y" and "\<And>y. jr_requester (f y) = jr_requester y"
  shows "wf d'"
proof -
  have "map jr_id (join_requests d') = map jr_id (join_requests d)"
    unfolding assms(2) using assms(3) by (rule map_update_where)
  moreover have "map jr_requester (join_requests d') = map jr_requester (join_requests d)"
    unfolding assms(2) using assms(4) by (rule map_update_where)
  ultimately show ?thesis using assms(1) by (simp add: wf_def)
qed

lemma wf_delete:
  assumes "wf d" and "join_requests d' = delete_where Q (join_requests d)"
  shows "wf d'"
proof -
  from assms(1) have ids: "distinct (map jr_id (join_requests d))"
    and names: "distinct (map jr_requester (join_requests d))"
    and nonempty: "[] \<notin> set (map jr_requester (join_requests d))"
    by (simp_all add: wf_def)
  have sub: "set (delete_where Q (join_requests d)) \<subseteq> set (join_requests d)"
    by (rule set_delete_where_subset)
  have "[] \<notin> set (map jr_requester (delete_where Q (join_requests d)))"
  proof
    assume "[] \<in> set (map jr_requester (delete_where Q (join_requests d)))"
    then obtain r where "r \<in> set (delete_where Q (join_requests d))" and "jr_requester r = []"
      by (auto simp: image_iff)
    with sub have "[] \<in> set (map jr_requester (join_requests d))" by force
    with nonempty show False by simp
  qed
  with distinct_map_delete_where [OF ids, of Q] distinct_map_delete_where [OF names, of Q]
  show ?thesis unfolding wf_def assms(2) by simp
qed

lemma wf_append:
  assumes "wf d" and "join_requests d' = join_requests d @ [r]"
    and "jr_id r = new_id (map jr_id (join_requests d))"
    and "jr_requester r \<noteq> []"
    and "jr_requester r \<notin> set (map jr_requester (join_requests d))"
  shows "wf d'"
proof -
  have "jr_id r \<notin> set (map jr_id (join_requests d))"
    unfolding assms(3) by (rule new_id_not_used)
  then show ?thesis
    using assms(1,4,5) unfolding wf_def assms(2) by auto
qed

lemma wf_empty_db: "wf empty_db"
  by (simp add: wf_def empty_db_def)

lemma clear_rejected_requests_rows:
  "join_requests (snd (clear_rejected_requests room_id d)) =
     (case meeting_by_room room_id d of
        None \<Rightarrow> join_requests d
      | Some meeting \<Rightarrow>
          delete_where (\<lambda>r. jr_meeting_id r = m_id meeting \<and> jr_status r = ''rejected'')
            (join_requests d))"
  by (simp add: clear_rejected_requests_def split: option.splits)

lemma clear_rejected_request_rows:
  "join_requests (snd (clear_rejected_request room_id requester d)) = join_requests d \<or>
   (\<exists>found. found \<in> set (join_requests d) \<and> jr_status found = ''rejected'' \<and>
      join_requests (snd (clear_rejected_request room_id requester d)) =
        delete_where (\<lambda>r. jr_id r = jr_id found) (join_requests d))"
proof (cases "meeting_by_room room_id d")
  case None
  then show ?thesis by (simp add: clear_rejected_request_def)
next
  case (Some meeting)
  show ?thesis
  proof (cases requester)
    case None
    with Some show ?thesis by (simp add: clear_rejected_request_def)
  next
    case (Some requester_id)
    let ?P = "\<lambda>r. jr_meeting_id r = m_id meeting \<and> jr_requester r = requester_id
                   \<and> jr_status r = ''rejected''"
    show ?thesis
    proof (cases "find ?P (join_requests d)")
      case None
      with Some \<open>meeting_by_room room_id d = Some meeting\<close> show ?thesis
        by (simp add: clear_rejected_request_def)
    next
      case (Some found)
      then have "found \<in> set (join_requests d)" and "jr_status found = ''rejected''"
        by (auto simp: find_Some_iff)
      moreover have "join_requests (snd (clear_rejected_request room_id requester d)) = join_requests d \<or>
          join_requests (snd (clear_rejected_request room_id requester d)) =
            delete_where (\<lambda>r. jr_id r = jr_id found) (join_requests d)"
        using Some \<open>requester = Some requester_id\<close> \<open>meeting_by_room room_id d = Some meeting\<close>
        by (simp add: clear_rejected_request_def)
      ultimately show ?thesis by blast
    qed
  qed
qed

lemma batch_rows:
  "join_requests (snd (batch_accept_requests e room_id ids d)) = join_requests d \<or>
   (\<exists>Q. join_requests (snd (batch_accept_requests e room_id ids d)) =
      update_where Q (\<lambda>r. r\<lparr>jr_status := ''accepted'', jr_updated_at := utcnow e\<rparr>)
        (join_requests d))"
  "join_requests (snd (batch_reject_requests e room_id ids d)) = join_requests d \<or>
   (\<exists>Q. join_requests (snd (batch_reject_requests e room_id ids d)) =
      update_where Q (\<lambda>r. r\<lparr>jr_status := ''rejected'', jr_updated_at := utcnow e\<rparr>)
        (join_requests d))"
  by (simp_all add: batch_accept_requests_def batch_reject_requests_def split: option.splits)
    blast+

lemma handle_join_request_rows:
  "join_requests (snd (handle_join_request e request_id action d)) = join_requests d \<or>
   (\<exists>Q st. join_requests (snd (handle_join_request e request_id action d)) =
      update_where Q (\<lambda>r. r\<lparr>jr_status := st, jr_updated_at := utcnow e\<rparr>) (join_requests d))"
  by (simp add: handle_join_request_def split: option.splits) blast

lemma create_join_request_rows:
  "join_requests (snd (create_join_request e room_id d)) = join_requests d \<or>
   (\<exists>r. join_requests (snd (create_join_request e room_id d)) = join_requests d @ [r] \<and>
      jr_id r = new_id (map jr_id (join_requests d)) \<and> jr_requester r = uuid4 e \<and>
      jr_status r = ''pending'')"
  by (simp add: create_join_request_def Let_def split: option.splits)

lemma wf_status_update:
  assumes "wf d"
    and "join_requests d' =
      update_where Q (\<lambda>r. r\<lparr>jr_status := st, jr_updated_at := t\<rparr>) (join_requests d)"
  shows "wf d'"
  using assms(1) assms(2) by (rule wf_update) simp_all

lemma wf_step:
  assumes "wf d" and "fresh e d"
  shows "wf (step e x d)"
proof (cases x)
  case (ClearRejectedRequests room_id)
  show ?thesis
  proof (cases "meeting_by_room room_id d")
    case None
    with assms(1) ClearRejectedRequests show ?thesis
      by (simp add: clear_rejected_requests_rows wf_same)
  next
    case (Some meeting)
    then have "join_requests (step e x d) =
        delete_where (\<lambda>r. jr_meeting_id r = m_id meeting \<and> jr_status r = ''rejected'')
          (join_requests d)"
      using ClearRejectedRequests by (simp add: clear_rejected_requests_rows)
    with assms(1) show ?thesis by (rule wf_delete)
  qed
next
  case (BatchAcceptRequests room_id ids)
  from batch_rows(1) [of e room_id ids d] show ?thesis
  proof (elim disjE exE)
    assume "join_requests (snd (batch_accept_requests e room_id ids d)) = join_requests d"
    with assms(1) BatchAcceptRequests show ?thesis by (simp add: wf_same)
  next
    fix Q
    assume "join_requests (snd (batch_accept_requests e room_id ids d)) =
      update_where Q (\<lambda>r. r\<lparr>jr_status := ''accepted'', jr_updated_at := utcnow e\<rparr>)
        (join_requests d)"
    with assms(1) have "wf (snd (batch_accept_requests e room_id ids d))"
      by (rule wf_status_update)
    with BatchAcceptRequests show ?thesis by simp
  qed
next
  case (BatchRejectRequests room_id ids)
  from batch_rows(2) [of e room_id ids d] show ?thesis
  proof (elim disjE exE)
    assume "join_requests (snd (batch_reject_requests e room_id ids d)) = join_requests d"
    with assms(1) BatchRejectRequests show ?thesis by (simp add: wf_same)
  next
    fix Q
    assume "join_requests (snd (batch_reject_requests e room_id ids d)) =
      update_where Q (\<lambda>r. r\<lparr>jr_status := ''rejected'', jr_updated_at := utcnow e\<rparr>)
        (join_requests d)"
    with assms(1) have "wf (snd (batch_reject_requests e room_id ids d))"
      by (rule wf_status_update)
    with BatchRejectRequests show ?thesis by simp
  qed
next
  case (CreateJoinRequest room_id)
  from create_join_request_rows [of e room_id d] show ?thesis
  proof (elim disjE exE conjE)
    assume "join_requests (snd (create_join_request e room_id d)) = join_requests d"
    with assms(1) CreateJoinRequest show ?thesis by (simp add: wf_same)
  next
    fix r
    assume rows: "join_requests (snd (create_join_request e room_id d)) = join_requests d @ [r]"
      and key: "jr_id r = new_id (map jr_id (join_requests d))"
      and name: "jr_requester r = uuid4 e"
    from assms(2) name have "jr_requester r \<noteq> []"
      and "jr_requester r \<notin> set (map jr_requester (join_requests d))"
      by (simp_all add: fresh_def)
    with assms(1) rows key have "wf (snd (create_join_request e room_id d))"
      by (rule wf_append)
    with CreateJoinRequest show ?thesis by simp
  qed
next
  case (HandleJoinRequest request_id action)
  from handle_join_request_rows [of e request_id action d] show ?thesis
  proof (elim disjE exE)
    assume "join_requests (snd (handle_join_request e request_id action d)) = join_requests d"
    with assms(1) HandleJoinRequest show ?thesis by (simp add: wf_same)
  next
    fix Q st
    assume "join_requests (snd (handle_join_request e request_id action d)) =
      update_where Q (\<lambda>r. r\<lparr>jr_status := st, jr_updated_at := utcnow e\<rparr>) (join_requests d)"
    with assms(1) have "wf (snd (handle_join_request e request_id action d))"
      by (rule wf_status_update)
    with HandleJoinRequest show ?thesis by simp
  qed
next
  case (ClearRejectedRequest room_id requester)
  from clear_rejected_request_rows [of room_id requester d] show ?thesis
  proof (elim disjE exE conjE)
    assume "join_requests (snd (clear_rejected_request room_id requester d)) = join_requests d"
    with assms(1) ClearRejectedRequest show ?thesis by (simp add: wf_same)
  next
    fix found
    assume "join_requests (snd (clear_rejected_request room_id requester d)) =
        delete_where (\<lambda>r. jr_id r = jr_id found) (join_requests d)"
    with assms(1) have "wf (snd (clear_rejected_request room_id requester d))"
      by (rule wf_delete)
    with ClearRejectedRequest show ?thesis by simp
  qed
qed (use assms(1) in \<open>simp_all add: wf_same\<close>)

lemma wf_run: "wf d \<Longrightarrow> admissible rs d \<Longrightarrow> wf (run rs d)"
proof (induction rs arbitrary: d)
  case Nil
  then show ?case by simp
next
  case (Cons a rs)
  obtain e x where a: "a = (e, x)" by (cases a)
  with Cons.prems have "fresh e d" and "admissible rs (step e x d)" by simp_all
  with Cons.prems(1) Cons.IH [of "step e x d"] a show ?case by (simp add: wf_step)
qed


subsection \<open>Join requests are deleted only when rejected\<close>

lemma update_keeps_ids:
  "set (map jr_id (update_where Q (\<lambda>r. r\<lparr>jr_status := st, jr_updated_at := t\<rparr>) rows))
     = set (map jr_id rows)"
proof -
  have "map jr_id (update_where Q (\<lambda>r. r\<lparr>jr_status := st, jr_updated_at := t\<rparr>) rows)
      = map jr_id rows"
    by (rule map_update_where) simp
  then show ?thesis by simp
qed

lemma step_keeps_ids:
  assumes "\<And>room_id. x \<noteq> ClearRejectedRequests room_id"
    and "\<And>room_id requester. x \<noteq> ClearRejectedRequest room_id requester"
  shows "set (map jr_id (join_requests d)) \<subseteq> set (map jr_id (join_requests (step e x d)))"
proof (cases x)
  case (ClearRejectedRequests room_id)
  with assms(1) [of room_id] show ?thesis by simp
next
  case (ClearRejectedRequest room_id requester)
  with assms(2) [of room_id requester] show ?thesis by simp
next
  case (BatchAcceptRequests room_id ids)
  from batch_rows(1) [of e room_id ids d]
  have "set (map jr_id (join_requests (snd (batch_accept_requests e room_id ids d))))
      = set (map jr_id (join_requests d))"
    by (elim disjE exE) (simp_all only: update_keeps_ids)
  with BatchAcceptRequests show ?thesis by simp
next
  case (BatchRejectRequests room_id ids)
  from batch_rows(2) [of e room_id ids d]
  have "set (map jr_id (join_requests (snd (batch_reject_requests e room_id ids d))))
      = set (map jr_id (join_requests d))"
    by (elim disjE exE) (simp_all only: update_keeps_ids)
  with BatchRejectRequests show ?thesis by simp
next
  case (HandleJoinRequest request_id action)
  from handle_join_request_rows [of e request_id action d]
  have "set (map jr_id (join_requests (snd (handle_join_request e request_id action d))))
      = set (map jr_id (join_requests d))"
    by (elim disjE exE) (simp_all only: update_keeps_ids)
  with HandleJoinRequest show ?thesis by simp
next
  case (CreateJoinRequest room_id)
  from create_join_request_rows [of e room_id d]
  have "set (map jr_id (join_requests d))
      \<subseteq> set (map jr_id (join_requests (snd (create_join_request e room_id d))))"
    by (elim disjE exE conjE) auto
  with CreateJoinRequest show ?thesis by simp
qed simp_all

text \<open>
  C6. In a database that satisfies the constraints of the schema, when a request of any
  route removes a JoinRequest row (no row with its id is left afterwards), the status of
  that row was \<open>rejected\<close> and the route was one of the two that clear rejected requests.
  Rows with status \<open>pending\<close> or \<open>accepted\<close> are therefore never deleted.
\<close>

theorem join_requests_deleted_only_when_rejected:
  assumes "wf d" and "r \<in> set (join_requests d)"
    and "jr_id r \<notin> set (map jr_id (join_requests (step e x d)))"
  shows "jr_status r = ''rejected'' \<and>
         ((\<exists>room_id. x = ClearRejectedRequests room_id) \<or>
          (\<exists>room_id requester. x = ClearRejectedRequest room_id requester))"
proof -
  from assms(2) have here: "jr_id r \<in> set (map jr_id (join_requests d))" by simp
  consider (bulk) room_id where "x = ClearRejectedRequests room_id"
    | (single) room_id requester where "x = ClearRejectedRequest room_id requester"
    | (other) "\<And>room_id. x \<noteq> ClearRejectedRequests room_id"
        "\<And>room_id requester. x \<noteq> ClearRejectedRequest room_id requester"
    by (cases x) auto
  then show ?thesis
  proof cases
    case bulk
    show ?thesis
    proof (cases "meeting_by_room room_id d")
      case None
      with bulk have "join_requests (step e x d) = join_requests d"
        by (simp add: clear_rejected_requests_rows)
      with here assms(3) show ?thesis by simp
    next
      case (Some meeting)
      let ?P = "\<lambda>r. jr_meeting_id r = m_id meeting \<and> jr_status r = ''rejected''"
      from Some bulk have rows: "join_requests (step e x d) = delete_where ?P (join_requests d)"
        by (simp add: clear_rejected_requests_rows)
      have "?P r"
      proof (rule ccontr)
        assume "\<not> ?P r"
        with assms(2) have "r \<in> set (delete_where ?P (join_requests d))"
          by (simp add: delete_where_def)
        with rows have "jr_id r \<in> set (map jr_id (join_requests (step e x d)))" by simp
        with assms(3) show False by simp
      qed
      with bulk show ?thesis by simp
    qed
  next
    case single
    from clear_rejected_request_rows [of room_id requester d] show ?thesis
    proof (elim disjE exE conjE)
      assume "join_requests (snd (clear_rejected_request room_id requester d)) = join_requests d"
      with single have "join_requests (step e x d) = join_requests d" by simp
      with here assms(3) show ?thesis by simp
    next
      fix found
      assume found: "found \<in> set (join_requests d)" and status: "jr_status found = ''rejected''"
        and "join_requests (snd (clear_rejected_request room_id requester d)) =
          delete_where (\<lambda>r. jr_id r = jr_id found) (join_requests d)"
      with single have rows: "join_requests (step e x d) =
          delete_where (\<lambda>r. jr_id r = jr_id found) (join_requests d)" by simp
      have "jr_id r = jr_id found"
      proof (rule ccontr)
        assume "jr_id r \<noteq> jr_id found"
        with assms(2) have "r \<in> set (delete_where (\<lambda>r. jr_id r = jr_id found) (join_requests d))"
          by (simp add: delete_where_def)
        with rows have "jr_id r \<in> set (map jr_id (join_requests (step e x d)))" by simp
        with assms(3) show False by simp
      qed
      moreover from assms(1) have "distinct (map jr_id (join_requests d))"
        by (simp add: wf_def)
      ultimately have "r = found"
        using assms(2) found by (intro same_key_same_row [of jr_id "join_requests d"])
      with status single show ?thesis by simp
    qed
  next
    case other
    from step_keeps_ids [OF other, of d e] here
    have "jr_id r \<in> set (map jr_id (join_requests (step e x d)))" by blast
    with assms(3) show ?thesis by simp
  qed
qed

theorem join_requests_deleted_only_when_rejected_witness:
  "wf requests_db \<and>
   sample_request\<lparr>jr_id := 2, jr_requester := ''u-9'', jr_status := ''rejected''\<rparr>
     \<in> set (join_requests requests_db) \<and>
   jr_id (sample_request\<lparr>jr_id := 2, jr_requester := ''u-9'', jr_status := ''rejected''\<rparr>)
     \<notin> set (map jr_id (join_requests
           (step early_env (ClearRejectedRequests ''room-a'') requests_db))) \<and>
   jr_status (sample_request\<lparr>jr_id := 2, jr_requester := ''u-9'', jr_status := ''rejected''\<rparr>)
     = ''rejected'' \<and>
   map (\<lambda>r. (jr_id r, jr_status r))
     (join_requests (step early_env (ClearRejectedRequests ''room-a'') requests_db)) =
     [(1, ''pending'')] \<and>
   map (\<lambda>r. (jr_id r, jr_status r))
     (join_requests (step early_env (ClearRejectedRequest ''room-a'' (Some ''u-9'')) requests_db)) =
     [(1, ''pending'')] \<and>
   map (\<lambda>r. (jr_id r, jr_status r))
     (join_requests (step early_env (ClearRejectedRequest ''room-a'' (Some ''u-0'')) requests_db)) =
     [(1, ''pending''), (2, ''rejected'')]"
proof -
  let ?r = "sample_request\<lparr>jr_id := 2, jr_requester := ''u-9'', jr_status := ''rejected''\<rparr>"
  have a: "wf requests_db"
    by (simp add: wf_def requests_db_def sample_request_def)
  have b: "?r \<in> set (join_requests requests_db)"
    by (simp add: requests_db_def)
  have m: "meeting_by_room ''room-a'' requests_db = Some sample_meeting"
    by (simp add: meeting_by_room_def requests_db_def sample_db_def sample_meeting_def empty_db_def)
  have rows: "map (\<lambda>r. (jr_id r, jr_status r))
     (join_requests (step early_env (ClearRejectedRequests ''room-a'') requests_db)) =
     [(1, ''pending'')]"
    using m by (simp add: clear_rejected_requests_def delete_where_def requests_db_def
        sample_request_def sample_meeting_def)
  have c: "jr_id ?r \<notin> set (map jr_id (join_requests
           (step early_env (ClearRejectedRequests ''room-a'') requests_db)))"
    using m by (simp add: clear_rejected_requests_def delete_where_def requests_db_def
        sample_request_def sample_meeting_def)
  have single: "map (\<lambda>r. (jr_id r, jr_status r))
     (join_requests (step early_env (ClearRejectedRequest ''room-a'' (Some ''u-9'')) requests_db)) =
     [(1, ''pending'')]"
    using m by (simp add: clear_rejected_request_def delete_where_def requests_db_def
        sample_request_def sample_meeting_def)
  have kept: "map (\<lambda>r. (jr_id r, jr_status r))
     (join_requests (step early_env (ClearRejectedRequest ''room-a'' (Some ''u-0'')) requests_db)) =
     [(1, ''pending''), (2, ''rejected'')]"
    using m by (simp add: clear_rejected_request_def delete_where_def requests_db_def
        sample_request_def sample_meeting_def)
  from join_requests_deleted_only_when_rejected [OF a b c]
  have "jr_status ?r = ''rejected''" by simp
  with a b c rows single kept show ?thesis by simp
qed

end
